theory Spec2Isabelle
  imports Complex_Main "HOL-Library.Char_ord" "HOL-Library.List_Lexorder"
begin

section \<open>Python strings\<close>

text \<open>
  A Python \<open>str\<close> is modelled as a \<open>string\<close>: a list of characters, each a code point
  below 256. The string methods the program calls are written out for that range.
\<close>

text \<open>\<open>str.isspace\<close> on one character: U+0009..U+000D, U+001C..U+0020, U+0085, U+00A0.\<close>

definition py_isspace :: "char \<Rightarrow> bool" where
  "py_isspace c =
     (let n = (of_char c :: nat)
      in (9 \<le> n \<and> n \<le> 13) \<or> (28 \<le> n \<and> n \<le> 32) \<or> n = 133 \<or> n = 160)"

text \<open>\<open>s.strip()\<close>: whitespace removed at both ends.\<close>

definition strip :: "string \<Rightarrow> string" where
  "strip s = rev (dropWhile py_isspace (rev (dropWhile py_isspace s)))"

text \<open>\<open>s.lower()\<close>: A..Z and the upper-case letters of U+00C0..U+00DE move up by 32.\<close>

definition lower_char :: "char \<Rightarrow> char" where
  "lower_char c =
     (let n = (of_char c :: nat)
      in if (65 \<le> n \<and> n \<le> 90) \<or> (192 \<le> n \<and> n \<le> 222 \<and> n \<noteq> 215)
         then char_of (n + 32) else c)"

definition lower :: "string \<Rightarrow> string" where
  "lower s = map lower_char s"

text \<open>\<open>sep.join(xs)\<close>.\<close>

fun join :: "string \<Rightarrow> string list \<Rightarrow> string" where
  "join sep [] = []"
| "join sep [x] = x"
| "join sep (x # y # ys) = x @ sep @ join sep (y # ys)"

abbreviation NL :: string where
  "NL \<equiv> [CHR 0x0A]"

abbreviation DQ :: string where
  "DQ \<equiv> [CHR 0x22]"

text \<open>\<open>' ' in c\<close> for a string \<open>c\<close>.\<close>

definition has_space :: "string \<Rightarrow> bool" where
  "has_space c = (CHR '' '' \<in> set c)"

section \<open>Exceptions, output, the process's world\<close>

text \<open>The exceptions that the program raises and does not always catch.\<close>

datatype py_error =
    AttributeError
  | EOFError
  | TypeError
  | FileNotFoundError
  | IsADirectoryError
  | CalledProcessError
  | OSError

text \<open>
  What the program writes, in order. \<open>info\<close>, \<open>warn\<close> and \<open>error\<close> put the parrot prefix
  before the message (\<open>warn\<close> and \<open>error\<close> on standard error); the event keeps the
  message. \<open>Prompt\<close> is the text \<open>input\<close> shows before it reads.
\<close>

datatype event =
    Info string
  | Warn string
  | Error string
  | Print string
  | PrintErr string
  | Prompt string

text \<open>
  What the system answers for a path string: a file with its text and modification time, a
  directory with its entries, or a refusal (\<open>stat\<close> fails with an \<open>OSError\<close> other than "not
  there": a name that is too long, a directory that may not be searched). No answer, \<open>None\<close>,
  is a path that is not there.
\<close>

datatype node = File string int | Dir "string list" | Refused

text \<open>
  How \<open>subprocess.run\<close> ends: the child's return code and captured output, or no child
  at all (the executable is missing: \<open>FileNotFoundError\<close>).
\<close>

datatype proc = Completed int string | NotStarted

text \<open>
  The state the program reads and changes: the working directory, the files (by the path
  string the program uses for them), the answers that successive \<open>input\<close> calls get
  (\<open>None\<close> is end of input), how many were read, the output so far, and the external
  commands run so far (argument vector and how it ended, oldest first).
\<close>

record world =
  cwd :: string
  fs :: "string \<Rightarrow> node option"
  stdin :: "nat \<Rightarrow> string option"
  reads :: nat
  out :: "event list"
  trace :: "(string list \<times> proc) list"

definition emit :: "event \<Rightarrow> world \<Rightarrow> world" where
  "emit e w = w\<lparr>out := out w @ [e]\<rparr>"

text \<open>\<open>print_section(title)\<close>\<close>

definition print_section :: "string \<Rightarrow> world \<Rightarrow> world" where
  "print_section title w =
     (let line = replicate (max 10 (length title + 4)) CHR ''-''
      in emit (Print (NL @ line @ NL @ title @ NL @ line)) w)"

text \<open>
  \<open>input(prompt)\<close>: shows the prompt, then takes the next answer; at end of input it raises
  \<open>EOFError\<close>.
\<close>

definition input_line :: "string \<Rightarrow> world \<Rightarrow> (py_error + string) \<times> world" where
  "input_line prompt w =
     (let w1 = (emit (Prompt prompt) w)\<lparr>reads := Suc (reads w)\<rparr>
      in case stdin w (reads w) of
           None \<Rightarrow> (Inl EOFError, w1)
         | Some l \<Rightarrow> (Inr l, w1))"

section \<open>The prompts\<close>

text \<open>
  The loop of \<open>ask_multiline_markdown\<close>: it ends at end of input or at a line whose
  stripped form is a single dot, and may run forever on endless input.
\<close>

partial_function (option) read_description :: "string list \<Rightarrow> world \<Rightarrow> (string list \<times> world) option" where
  "read_description lines w =
     (case input_line ''> '' w of
        (Inl e, w1) \<Rightarrow> Some (lines, w1)
      | (Inr l, w1) \<Rightarrow>
          if strip l = ''.'' then Some (lines, w1)
          else read_description (lines @ [l]) w1)"

definition ask_multiline_markdown :: "string \<Rightarrow> world \<Rightarrow> (string \<times> world) option" where
  "ask_multiline_markdown prompt w =
     (let w1 = print_section ''PR Description'' w;
          w2 = emit (Info prompt) w1;
          w3 = emit (Print ''Finish input with a single line '.' or EOF (Ctrl+D):'') w2
      in case read_description [] w3 of
           None \<Rightarrow> None
         | Some (lines, w4) \<Rightarrow> Some (strip (join NL lines), w4))"

definition valid :: "string set" where
  "valid = {''patch'', ''minor'', ''major''}"

text \<open>
  The loop of \<open>ask_change_type\<close>: \<open>input\<close> is not guarded here, so end of input leaves
  the function with \<open>EOFError\<close>.
\<close>

partial_function (option) read_change_type :: "world \<Rightarrow> ((py_error + string) \<times> world) option" where
  "read_change_type w =
     (case input_line ''Change type for this changeset? [patch/minor/major]: '' w of
        (Inl e, w1) \<Rightarrow> Some (Inl e, w1)
      | (Inr l, w1) \<Rightarrow>
          (let answer = lower (strip l)
           in if answer \<in> valid then Some (Inr answer, w1)
              else read_change_type (emit (Print ''Please enter 'patch', 'minor' or 'major'.'') w1)))"

definition ask_change_type :: "world \<Rightarrow> ((py_error + string) \<times> world) option" where
  "ask_change_type w = read_change_type (print_section ''Change Type'' w)"

section \<open>Values decoded from JSON, and the libraries the program calls\<close>

text \<open>
  What \<open>json.load\<close> returns: \<open>None\<close>, a bool, an int, a float, a str, a list or a dict.
  A dict is an association list with \<open>map_of\<close> as its lookup. Only the truth value of a
  float is read by the program.
\<close>

datatype json =
    JNull
  | JBool bool
  | JInt int
  | JFloat real
  | JStr string
  | JArr "json list"
  | JObj "(string \<times> json) list"

text \<open>Python's truth value of such an object (\<open>if not x\<close>, \<open>x or y\<close>).\<close>

fun truthy :: "json \<Rightarrow> bool" where
  "truthy JNull = False"
| "truthy (JBool b) = b"
| "truthy (JInt i) = (i \<noteq> 0)"
| "truthy (JFloat x) = (x \<noteq> 0)"
| "truthy (JStr s) = (s \<noteq> [])"
| "truthy (JArr xs) = (xs \<noteq> [])"
| "truthy (JObj kvs) = (kvs \<noteq> [])"

text \<open>
  \<open>d.get(k)\<close>: the value, \<open>None\<close> for a key that is not there; an object that is not a
  dict has no \<open>get\<close>.
\<close>

definition py_get :: "json \<Rightarrow> string \<Rightarrow> py_error + json" where
  "py_get d k =
     (case d of
        JObj kvs \<Rightarrow> Inr (case map_of kvs k of None \<Rightarrow> JNull | Some v \<Rightarrow> v)
      | _ \<Rightarrow> Inl AttributeError)"

text \<open>The object as a \<open>str\<close>, where the program needs one: \<open>None\<close> stands for \<open>TypeError\<close>.\<close>

fun str_of :: "json \<Rightarrow> string option" where
  "str_of (JStr s) = Some s"
| "str_of _ = None"

text \<open>
  A match object of \<open>re\<close>: \<open>m.groups()\<close> (a group that took no part in the match is
  \<open>None\<close>) and \<open>m.groupdict()\<close>.
\<close>

record match =
  groups :: "string option list"
  groupdict :: "(string \<times> string option) list"

text \<open>
  The libraries and external tools, as parameters of the model:
  \<^item> \<open>json_loads\<close>: the decoder, \<open>Inl\<close> the text of a \<open>JSONDecodeError\<close>;
  \<^item> \<open>re_compile\<close>: \<open>Some\<close> the text of the \<open>re.error\<close> for a pattern that does not compile;
  \<^item> \<open>re_search\<close>: \<open>re.compile(pattern).search(text)\<close>;
  \<^item> \<open>py_str\<close>: \<open>str(x)\<close> for a decoded object;
  \<^item> \<open>subprocess_run\<close>: a child process, from its argument vector, its working directory
    and the state it starts in: how it ends and the files it leaves;
  \<^item> \<open>clock\<close>: the modification time a file written now gets.
\<close>

record env =
  json_loads :: "string \<Rightarrow> string + json"
  re_compile :: "string \<Rightarrow> string option"
  re_search :: "string \<Rightarrow> string \<Rightarrow> match option"
  py_str :: "json \<Rightarrow> string"
  subprocess_run :: "string list \<Rightarrow> string option \<Rightarrow> world \<Rightarrow> proc \<times> (string \<Rightarrow> node option)"
  clock :: "world \<Rightarrow> int"

text \<open>An f-string field \<open>{x}\<close>.\<close>

definition fmt :: "env \<Rightarrow> json \<Rightarrow> string" where
  "fmt E x = (case x of JStr s \<Rightarrow> s | _ \<Rightarrow> py_str E x)"

section \<open>Paths\<close>

text \<open>
  A \<open>pathlib\<close> path on POSIX: the root (empty, \<open>/\<close> or \<open>//\<close>) and the components; empty
  components and \<open>.\<close> disappear when a path is built from a string.
\<close>

record ppath =
  anchor :: string
  parts :: "string list"

fun split_on :: "char \<Rightarrow> string \<Rightarrow> string list" where
  "split_on sep [] = [[]]"
| "split_on sep (c # cs) =
     (if c = sep then [] # split_on sep cs
      else (case split_on sep cs of
              [] \<Rightarrow> [[c]]
            | x # xs \<Rightarrow> (c # x) # xs))"

definition Path :: "string \<Rightarrow> ppath" where
  "Path s =
     \<lparr>anchor = (if take 2 s = ''//'' \<and> take 3 s \<noteq> ''///'' then ''//''
                else if take 1 s = ''/'' then ''/'' else []),
      parts = filter (\<lambda>p. p \<noteq> [] \<and> p \<noteq> ''.'') (split_on CHR ''/'' s)\<rparr>"

definition as_posix :: "ppath \<Rightarrow> string" where
  "as_posix p =
     (if anchor p = [] \<and> parts p = [] then ''.''
      else anchor p @ join ''/'' (parts p))"

text \<open>\<open>p.parents\<close>: the nearest first.\<close>

definition parents :: "ppath \<Rightarrow> ppath list" where
  "parents p = map (\<lambda>k. p\<lparr>parts := take k (parts p)\<rparr>) (rev [0..<length (parts p)])"

text \<open>\<open>p / s\<close>\<close>

definition joinpath :: "ppath \<Rightarrow> string \<Rightarrow> ppath" where
  "joinpath p s =
     (if anchor (Path s) \<noteq> [] then Path s
      else p\<lparr>parts := parts p @ parts (Path s)\<rparr>)"

text \<open>\<open>p.name\<close>\<close>

definition name :: "ppath \<Rightarrow> string" where
  "name p = (if parts p = [] then [] else last (parts p))"

text \<open>
  \<open>p.exists()\<close> and \<open>p.is_file()\<close>: false for a path that is not there; a refusal of the
  system is raised again as \<open>OSError\<close>.
\<close>

definition exists :: "world \<Rightarrow> ppath \<Rightarrow> py_error + bool" where
  "exists w p =
     (case fs w (as_posix p) of
        None \<Rightarrow> Inr False
      | Some Refused \<Rightarrow> Inl OSError
      | Some (File _ _) \<Rightarrow> Inr True
      | Some (Dir _) \<Rightarrow> Inr True)"

definition is_file :: "world \<Rightarrow> ppath \<Rightarrow> py_error + bool" where
  "is_file w p =
     (case fs w (as_posix p) of
        None \<Rightarrow> Inr False
      | Some Refused \<Rightarrow> Inl OSError
      | Some (File _ _) \<Rightarrow> Inr True
      | Some (Dir _) \<Rightarrow> Inr False)"

text \<open>\<open>p.stat().st_mtime\<close>, which the program reads for files only.\<close>

definition st_mtime :: "world \<Rightarrow> ppath \<Rightarrow> int" where
  "st_mtime w p = (case fs w (as_posix p) of Some (File _ t) \<Rightarrow> t | _ \<Rightarrow> 0)"

text \<open>\<open>with p.open("w") as f: f.write(text)\<close>: the file's whole content is replaced.\<close>

definition write_text :: "env \<Rightarrow> ppath \<Rightarrow> string \<Rightarrow> world \<Rightarrow> world" where
  "write_text E p text w = w\<lparr>fs := (fs w)(as_posix p \<mapsto> File text (clock E w))\<rparr>"

definition DEFAULT_CONFIG_FILE :: string where
  "DEFAULT_CONFIG_FILE = ''blacky.conf.json''"

section \<open>Config handling\<close>

record AzureConfig =
  organization_url :: json
  project :: json
  repository :: json

record BlackyConfig =
  pr_title_regex :: json
  package_manager :: json
  target_branch :: json
  project_pkg_prefix :: json
  azure :: AzureConfig

definition example_configuration :: string where
  "example_configuration =
     NL @ ''Example configuration:'' @ NL @
     ''{'' @ NL @
     ''  '' @ DQ @ ''prTitleRegex'' @ DQ @ '': '' @ DQ @ ''^feature/(?P<title>.+)$'' @ DQ @ '','' @ NL @
     ''  '' @ DQ @ ''packageManager'' @ DQ @ '': '' @ DQ @ ''pnpm'' @ DQ @ '','' @ NL @
     ''  '' @ DQ @ ''targetBranch'' @ DQ @ '': '' @ DQ @ ''main'' @ DQ @ '','' @ NL @
     ''  '' @ DQ @ ''azure'' @ DQ @ '': {'' @ NL @
     ''    '' @ DQ @ ''organizationUrl'' @ DQ @ '': '' @ DQ @ ''https://dev.azure.com/<org>'' @ DQ @ '','' @ NL @
     ''    '' @ DQ @ ''project'' @ DQ @ '': '' @ DQ @ ''<project>'' @ DQ @ '','' @ NL @
     ''    '' @ DQ @ ''repository'' @ DQ @ '': '' @ DQ @ ''<repo-name>'' @ DQ @ NL @
     ''  }'' @ NL @
     ''}'' @ NL"

text \<open>
  The checks of \<open>load_config_file\<close> on the decoded document \<open>raw\<close> (from
  \<open>raw.get("prTitleRegex")\<close> to the end of the function). The seven \<open>if not ...\<close> tests
  append to \<open>missing_keys\<close> in this order. \<open>attempt r w k\<close> goes on with the value of
  \<open>r\<close>, or leaves with its exception.
\<close>

definition attempt :: "py_error + 'a \<Rightarrow> world \<Rightarrow> ('a \<Rightarrow> (py_error + 'b) \<times> world) \<Rightarrow> (py_error + 'b) \<times> world" where
  "attempt r w k = (case r of Inl e \<Rightarrow> (Inl e, w) | Inr x \<Rightarrow> k x)"

definition check_config :: "json \<Rightarrow> world \<Rightarrow> (py_error + BlackyConfig option) \<times> world" where
  "check_config raw w =
     attempt (py_get raw ''prTitleRegex'') w (\<lambda>pr_title_regex'.
     attempt (py_get raw ''packageManager'') w (\<lambda>package_manager'.
     attempt (py_get raw ''targetBranch'') w (\<lambda>target_branch'.
     attempt (py_get raw ''projectPackagePrefix'') w (\<lambda>project_pkg_prefix'.
     attempt (py_get raw ''azure'') w (\<lambda>azure_v.
     let azure_raw = (if truthy azure_v then azure_v else JObj []) in
     attempt (py_get azure_raw ''organizationUrl'') w (\<lambda>org_url.
     attempt (py_get azure_raw ''project'') w (\<lambda>project'.
     attempt (py_get azure_raw ''repository'') w (\<lambda>repo.
     let missing_keys =
           (if \<not> truthy pr_title_regex' then [''prTitleRegex''] else []) @
           (if \<not> truthy target_branch' then [''targetBranch''] else []) @
           (if \<not> truthy project_pkg_prefix' then [''projectPackagePrefix''] else []) @
           (if \<not> truthy package_manager' then [''packageManager''] else []) @
           (if \<not> truthy org_url then [''azure.organizationUrl''] else []) @
           (if \<not> truthy project' then [''azure.project''] else []) @
           (if \<not> truthy repo then [''azure.repository''] else [])
     in if missing_keys \<noteq> [] then
          (Inr None,
           emit (PrintErr example_configuration)
             (foldl (\<lambda>w' key. emit (PrintErr (''  - '' @ key)) w')
                (emit (Error ''Your blacky.conf.json is missing some required fields:'') w)
                missing_keys))
        else
          (Inr (Some \<lparr>pr_title_regex = pr_title_regex',
                      package_manager = package_manager',
                      target_branch = target_branch',
                      project_pkg_prefix = project_pkg_prefix',
                      azure = \<lparr>organization_url = org_url, project = project',
                               repository = repo\<rparr>\<rparr>), w)))))))))"

definition load_config_file :: "env \<Rightarrow> ppath \<Rightarrow> world \<Rightarrow> (py_error + BlackyConfig option) \<times> world" where
  "load_config_file E config_path w =
     (case fs w (as_posix config_path) of
        None \<Rightarrow>
          (Inr None,
           emit (Warn (''Configuration file not found at: '' @ as_posix config_path @ NL @
                       ''Blacky expects a blacky.conf.json in your project root.'')) w)
      | Some Refused \<Rightarrow> (Inl OSError, w)
      | Some (Dir _) \<Rightarrow> (Inl IsADirectoryError, w)
      | Some (File content _) \<Rightarrow>
          (case json_loads E content of
             Inl e \<Rightarrow>
               (Inr None,
                emit (Error (''Could not parse '' @ as_posix config_path @ '' as JSON: '' @ e @ NL @
                             ''Please fix the JSON syntax (trailing commas, quotes, etc.).'')) w)
           | Inr raw \<Rightarrow> check_config raw w))"

section \<open>Git, and the PR title from the branch\<close>

text \<open>One external command: the state after it, with the command in the trace.\<close>

definition run_process :: "env \<Rightarrow> string list \<Rightarrow> string option \<Rightarrow> world \<Rightarrow> proc \<times> world" where
  "run_process E argv dir w =
     (let (p, files) = subprocess_run E argv dir w
      in (p, w\<lparr>fs := files, trace := trace w @ [(argv, p)]\<rparr>))"

definition get_current_branch :: "env \<Rightarrow> world \<Rightarrow> (py_error + string option) \<times> world" where
  "get_current_branch E w =
     (case run_process E [''git'', ''rev-parse'', ''--abbrev-ref'', ''HEAD''] None w of
        (NotStarted, w1) \<Rightarrow> (Inl FileNotFoundError, w1)
      | (Completed rc stdout, w1) \<Rightarrow>
          if rc \<noteq> 0 then
            (Inr None,
             emit (Error ''Could not determine current git branch. Are you inside a git repository?'') w1)
          else
            (let branch = strip stdout
             in if branch = ''HEAD'' then (Inr None, w1) else (Inr (Some branch), w1)))"

text \<open>
  \<open>"title" in m.groupdict() and m.group("title")\<close>: the text of the group named
  \<open>title\<close>, when the pattern has one and it took a non-empty text.
\<close>

definition group_title :: "match \<Rightarrow> string option" where
  "group_title m =
     (case map_of (groupdict m) ''title'' of
        Some (Some t) \<Rightarrow> (if t \<noteq> [] then Some t else None)
      | _ \<Rightarrow> None)"

text \<open>
  \<open>m.group(1).strip()\<close> is not guarded: a first group that took no part in the match is
  \<open>None\<close>, which has no \<open>strip\<close>.
\<close>

definition build_pr_title_from_branch :: "env \<Rightarrow> string \<Rightarrow> json \<Rightarrow> world \<Rightarrow> (py_error + string) \<times> world" where
  "build_pr_title_from_branch E branch regex_pattern w =
     (case str_of regex_pattern of
        None \<Rightarrow> (Inl TypeError, w)
      | Some pat \<Rightarrow>
          (case re_compile E pat of
             Some e \<Rightarrow>
               (Inr branch,
                emit (Warn (''Configured prTitleRegex is invalid ('' @ e @ ''). '' @
                            ''Falling back to using the branch name as the PR title.'')) w)
           | None \<Rightarrow>
               (case re_search E pat branch of
                  None \<Rightarrow>
                    (Inr branch,
                     emit (Warn (''Configured prTitleRegex did not match the branch name. '' @
                                 ''Falling back to using the branch name as PR title.'')) w)
                | Some m \<Rightarrow>
                    (case group_title m of
                       Some t \<Rightarrow> (Inr (strip t), w)
                     | None \<Rightarrow>
                         if groups m \<noteq> [] then
                           (case hd (groups m) of
                              None \<Rightarrow> (Inl AttributeError, w)
                            | Some g \<Rightarrow> (Inr (strip g), w))
                         else (Inr branch, w)))))"

section \<open>Commands, changed packages, the changeset\<close>

text \<open>
  \<open>run_command(cmd, cwd)\<close> with \<open>check=True\<close>: \<open>' '.join(cmd)\<close> needs every element to
  be a \<open>str\<close>; a return code other than 0 raises \<open>CalledProcessError\<close>.
\<close>

definition run_command :: "env \<Rightarrow> json list \<Rightarrow> ppath \<Rightarrow> world \<Rightarrow> (py_error + unit) \<times> world" where
  "run_command E cmd dir w =
     (case those (map str_of cmd) of
        None \<Rightarrow> (Inl TypeError, w)
      | Some argv \<Rightarrow>
          (case run_process E argv (Some (as_posix dir))
                  (emit (Info (''Running command:'' @ NL @ ''  '' @ join '' '' argv)) w) of
             (NotStarted, w1) \<Rightarrow> (Inl FileNotFoundError, w1)
           | (Completed rc stdout, w1) \<Rightarrow>
               if rc \<noteq> 0 then (Inl CalledProcessError, w1) else (Inr (), w1)))"

text \<open>\<open>name.endswith(".md")\<close>, which is what the pattern \<open>*.md\<close> asks of an entry.\<close>

definition is_md :: "string \<Rightarrow> bool" where
  "is_md n = (3 \<le> length n \<and> drop (length n - 3) n = ''.md'')"

text \<open>
  \<open>sorted(..., key=st_mtime, reverse=True)\<close> is stable: the newest first, and entries of
  one time in the order the directory gives them. \<open>exists\<close> on the directory and \<open>is_file\<close>
  on an entry raise the system's refusal.
\<close>

definition find_latest_changeset_file :: "world \<Rightarrow> ppath \<Rightarrow> py_error + ppath option" where
  "find_latest_changeset_file w changesets_dir =
     (case exists w changesets_dir of
        Inl e \<Rightarrow> Inl e
      | Inr False \<Rightarrow> Inr None
      | Inr True \<Rightarrow>
          (let entries = (case fs w (as_posix changesets_dir) of Some (Dir ns) \<Rightarrow> ns | _ \<Rightarrow> []);
               matches = map (joinpath changesets_dir) (filter is_md entries)
           in if list_ex (\<lambda>p. is_file w p = Inl OSError) matches then Inl OSError
              else
                (let candidates =
                       rev (sort_key (st_mtime w)
                         (rev (filter (\<lambda>p. is_file w p = Inr True) matches)))
                 in case candidates of [] \<Rightarrow> Inr None | c # _ \<Rightarrow> Inr (Some c))))"

text \<open>\<open>str.splitlines\<close>, for the line boundaries below U+0100.\<close>

definition is_linebreak :: "char \<Rightarrow> bool" where
  "is_linebreak c =
     (let n = (of_char c :: nat)
      in (10 \<le> n \<and> n \<le> 13) \<or> (28 \<le> n \<and> n \<le> 30) \<or> n = 133)"

fun splitlines_from :: "string \<Rightarrow> string \<Rightarrow> string list" where
  "splitlines_from cur [] = (if cur = [] then [] else [cur])"
| "splitlines_from cur [c] = (if is_linebreak c then [cur] else [cur @ [c]])"
| "splitlines_from cur (c # d # cs) =
     (if c = CHR 0x0D \<and> d = CHR 0x0A then cur # splitlines_from [] cs
      else if is_linebreak c then cur # splitlines_from [] (d # cs)
      else splitlines_from (cur @ [c]) (d # cs))"

definition splitlines :: "string \<Rightarrow> string list" where
  "splitlines s = splitlines_from [] s"

text \<open>
  The inner loop of \<open>get_changed_packages\<close>: the first of \<open>[p] + list(p.parents)\<close> that
  holds a \<open>package.json\<close> is added, and the loop breaks. \<open>pkg_json.exists()\<close> may raise.
\<close>

fun add_package :: "world \<Rightarrow> ppath list \<Rightarrow> string set \<Rightarrow> py_error + string set" where
  "add_package w [] packages = Inr packages"
| "add_package w (parent # rest) packages =
     (case exists w (joinpath parent ''package.json'') of
        Inl e \<Rightarrow> Inl e
      | Inr True \<Rightarrow> Inr (insert (as_posix parent) packages)
      | Inr False \<Rightarrow> add_package w rest packages)"

text \<open>The outer loop over the changed files.\<close>

fun add_packages :: "world \<Rightarrow> string list \<Rightarrow> string set \<Rightarrow> py_error + string set" where
  "add_packages w [] packages = Inr packages"
| "add_packages w (file # files) packages =
     (case add_package w (Path file # parents (Path file)) packages of
        Inl e \<Rightarrow> Inl e
      | Inr packages' \<Rightarrow> add_packages w files packages')"

text \<open>Both loops, and the sorted list of the packages longer than one character.\<close>

definition packages_of :: "world \<Rightarrow> string list \<Rightarrow> py_error + string list" where
  "packages_of w changed_files =
     (case add_packages w changed_files {} of
        Inl e \<Rightarrow> Inl e
      | Inr packages \<Rightarrow> Inr (sorted_list_of_set (Set.filter (\<lambda>pkg. 1 < length pkg) packages)))"

definition get_changed_packages :: "env \<Rightarrow> world \<Rightarrow> (py_error + string list) \<times> world" where
  "get_changed_packages E w =
     (case run_process E [''git'', ''status'', ''--porcelain''] None w of
        (NotStarted, w1) \<Rightarrow> (Inl FileNotFoundError, w1)
      | (Completed rc stdout, w1) \<Rightarrow>
          if rc \<noteq> 0 then
            (Inr [], emit (Warn ''Could not execute 'git status'. Assuming no changed packages.'') w1)
          else
            (let changed_files =
                   map (drop 3) (filter (\<lambda>line. strip line \<noteq> []) (splitlines stdout))
             in (packages_of w1 changed_files, w1)))"

text \<open>The text that \<open>create_and_edit_changeset\<close> writes.\<close>

definition changeset_text :: "env \<Rightarrow> json \<Rightarrow> string list \<Rightarrow> string \<Rightarrow> string \<Rightarrow> string" where
  "changeset_text E project_pkg_prefix' changed_packages change_type description_md =
     (let front_matter_lines =
            [''---''] @
            map (\<lambda>pkg_path. DQ @ fmt E project_pkg_prefix' @ ''/'' @ name (Path pkg_path) @ DQ @
                               '': '' @ change_type) changed_packages @
            [''---''] @ [[]]
      in join NL front_matter_lines @
         (if description_md \<noteq> [] then strip description_md @ NL else []))"

definition create_and_edit_changeset ::
  "env \<Rightarrow> json \<Rightarrow> string \<Rightarrow> string \<Rightarrow> ppath \<Rightarrow> json \<Rightarrow> world \<Rightarrow> (py_error + ppath option) \<times> world" where
  "create_and_edit_changeset E package_manager' description_md change_type dir project_pkg_prefix' w =
     (case run_command E [package_manager', JStr ''changeset'', JStr ''--empty''] dir
             (print_section ''Changeset'' w) of
        (Inl e, w1) \<Rightarrow>
          if e = CalledProcessError then
            (Inr None,
             emit (Error (fmt E package_manager' @ '' changeset --empty failed. '' @
                          ''Is the changeset CLI installed and available in PATH?'')) w1)
          else (Inl e, w1)
      | (Inr _, w1) \<Rightarrow>
          (case find_latest_changeset_file w1 (joinpath dir ''.changeset'') of
             Inl e \<Rightarrow> (Inl e, w1)
           | Inr None \<Rightarrow>
               (Inr None,
                emit (Error (''I could not find a newly created changeset file in .changeset. '' @
                             ''Did the command actually create one?'')) w1)
           | Inr (Some latest) \<Rightarrow>
               (case get_changed_packages E
                       (emit (Info (''Editing changeset file: '' @ as_posix latest)) w1) of
                  (Inl e, w2) \<Rightarrow> (Inl e, w2)
                | (Inr changed_packages, w2) \<Rightarrow>
                    (let w3 = (if changed_packages = [] then
                                 emit (Warn (''I could not find any changed packages with a package.json. '' @
                                             ''The changeset will be created without explicit package entries.'')) w2
                               else w2);
                         w4 = write_text E latest
                                (changeset_text E project_pkg_prefix' changed_packages change_type description_md) w3
                     in (Inr (Some latest), emit (Info ''Changeset has been updated.'') w4)))))"

section \<open>Local build, PR creation, the subcommand\<close>

definition run_local_build :: "env \<Rightarrow> json \<Rightarrow> ppath \<Rightarrow> world \<Rightarrow> (py_error + bool) \<times> world" where
  "run_local_build E package_manager' dir w =
     (case run_command E [package_manager', JStr ''install''] dir (print_section ''Local Build'' w) of
        (Inl e, w1) \<Rightarrow>
          if e = CalledProcessError then
            (Inr False,
             emit (Error (''Installation step (install) failed. '' @
                          ''Blacky will abort before creating a PR.'')) w1)
          else (Inl e, w1)
      | (Inr _, w1) \<Rightarrow>
          (case run_command E [package_manager', JStr ''run'', JStr ''build:all''] dir w1 of
             (Inl e, w2) \<Rightarrow>
               if e = CalledProcessError then
                 (Inr False,
                  emit (Error (''Build step failed. '' @
                               ''I will not create a PR while the project does not build locally.'')) w2)
               else (Inl e, w2)
           | (Inr _, w2) \<Rightarrow> (Inr True, emit (Info ''Local build completed successfully.'') w2)))"

abbreviation SQ :: string where
  "SQ \<equiv> [CHR 0x27]"

text \<open>
  One element of the dry-run display, \<open>f"'{c}'" if ' ' in c else c\<close>, as \<open>join\<close> takes it:
  \<open>None\<close> stands for \<open>TypeError\<close> (\<open>in\<close> on an object that holds nothing, or an
  element that stays a non-\<open>str\<close>).
\<close>

fun shown :: "env \<Rightarrow> json \<Rightarrow> string option" where
  "shown E (JStr c) = Some (if has_space c then SQ @ c @ SQ else c)"
| "shown E (JArr xs) = (if JStr '' '' \<in> set xs then Some (SQ @ py_str E (JArr xs) @ SQ) else None)"
| "shown E (JObj kvs) = (if map_of kvs '' '' \<noteq> None then Some (SQ @ py_str E (JObj kvs) @ SQ) else None)"
| "shown E _ = None"

text \<open>The argument vector of \<open>create_azure_pr\<close>: \<open>base_cmd + extra_az_args\<close>.\<close>

definition az_cmd :: "json \<Rightarrow> json \<Rightarrow> json \<Rightarrow> string \<Rightarrow> json \<Rightarrow> string \<Rightarrow> string \<Rightarrow> string list \<Rightarrow> json list" where
  "az_cmd org_url project' repo source_branch target_branch' title description_md extra_az_args =
     [JStr ''az'', JStr ''repos'', JStr ''pr'', JStr ''create'',
      JStr ''--organization'', org_url,
      JStr ''--project'', project',
      JStr ''--repository'', repo,
      JStr ''--source-branch'', JStr source_branch,
      JStr ''--target-branch'', target_branch',
      JStr ''--title'', JStr title,
      JStr ''--description'', JStr description_md] @ map JStr extra_az_args"

definition create_azure_pr ::
  "env \<Rightarrow> json \<Rightarrow> json \<Rightarrow> json \<Rightarrow> string \<Rightarrow> json \<Rightarrow> string \<Rightarrow> string \<Rightarrow> string list \<Rightarrow> ppath \<Rightarrow> bool \<Rightarrow> world
     \<Rightarrow> (py_error + bool) \<times> world" where
  "create_azure_pr E org_url project' repo source_branch target_branch' title description_md
       extra_az_args dir dry_run' w =
     (let w1 = print_section ''Azure DevOps PR'' w;
          cmd = az_cmd org_url project' repo source_branch target_branch' title description_md
                  extra_az_args
      in if dry_run' then
           (let w2 = emit (Print ''Command would be:'')
                       (emit (Info ''Dry-run is enabled: I will show you what I would do, but no PR will be created.'') w1)
            in case those (map (shown E) cmd) of
                 None \<Rightarrow> (Inl TypeError, w2)
               | Some cs \<Rightarrow> (Inr True, emit (Print (''  '' @ join '' '' cs)) w2))
         else
           (case run_command E cmd dir w1 of
              (Inl e, w2) \<Rightarrow>
                if e = CalledProcessError then
                  (Inr False, emit (Error ''Creating the PR with Azure CLI failed.'') w2)
                else (Inl e, w2)
            | (Inr _, w2) \<Rightarrow>
                (Inr True, emit (Info ''Pull request was created successfully via Azure CLI.'') w2)))"

text \<open>The parsed command line of \<open>create-pr\<close>.\<close>

record args =
  dry_run :: bool
  az_args :: "string list"

text \<open>
  \<open>handle_create_pr\<close>: its value is the exit status; an exception that nothing catches
  ends the run as \<open>Inl\<close>; \<open>None\<close> is a prompt that never stops asking.
\<close>

definition handle_create_pr :: "env \<Rightarrow> args \<Rightarrow> world \<Rightarrow> ((py_error + int) \<times> world) option" where
  "handle_create_pr E a w =
     (let dir = Path (cwd w) in
      case load_config_file E (joinpath dir DEFAULT_CONFIG_FILE) (print_section ''Configuration'' w) of
        (Inl e, w1) \<Rightarrow> Some (Inl e, w1)
      | (Inr None, w1) \<Rightarrow> Some (Inr 1, w1)
      | (Inr (Some config), w1) \<Rightarrow>
     (case get_current_branch E (print_section ''Git'' w1) of
        (Inl e, w2) \<Rightarrow> Some (Inl e, w2)
      | (Inr None, w2) \<Rightarrow>
          Some (Inr 1, emit (Error ''Without a current branch I cannot create a PR.'') w2)
      | (Inr (Some current_branch), w2) \<Rightarrow>
          if current_branch = [] then
            Some (Inr 1, emit (Error ''Without a current branch I cannot create a PR.'') w2)
          else
     (case build_pr_title_from_branch E current_branch (pr_title_regex config) w2 of
        (Inl e, w3) \<Rightarrow> Some (Inl e, w3)
      | (Inr title, w3) \<Rightarrow>
     (case ask_multiline_markdown ''Please provide a PR description in Markdown.''
             (emit (Info (''Suggested PR title: '' @ title)) w3) of
        None \<Rightarrow> None
      | Some (description, w4) \<Rightarrow>
     (case ask_change_type
             (if description = [] then
                emit (Warn ''You did not provide a description. The PR will be a bit terse.'') w4
              else w4) of
        None \<Rightarrow> None
      | Some (Inl e, w5) \<Rightarrow> Some (Inl e, w5)
      | Some (Inr change_type, w5) \<Rightarrow>
     (case create_and_edit_changeset E (package_manager config) description change_type dir
             (project_pkg_prefix config) w5 of
        (Inl e, w6) \<Rightarrow> Some (Inl e, w6)
      | (Inr None, w6) \<Rightarrow>
          Some (Inr 1,
                emit (Error (''I could not create a valid changeset. '' @
                             ''No PR without a changeset, sorry.'')) w6)
      | (Inr (Some changeset_path), w6) \<Rightarrow>
     (case run_local_build E (package_manager config) dir w6 of
        (Inl e, w7) \<Rightarrow> Some (Inl e, w7)
      | (Inr False, w7) \<Rightarrow> Some (Inr 1, w7)
      | (Inr True, w7) \<Rightarrow>
     (case create_azure_pr E
             (organization_url (azure config)) (project (azure config)) (repository (azure config))
             current_branch (target_branch config) title
             (if description \<noteq> [] then description
              else ''Automatically created by blacky for branch '' @ current_branch)
             (az_args a) dir (dry_run a) w7 of
        (Inl e, w8) \<Rightarrow> Some (Inl e, w8)
      | (Inr success, w8) \<Rightarrow> Some (Inr (if success then 0 else 1), w8)))))))))"

section \<open>Inputs for the statements below\<close>

text \<open>The answers still to come, the next one at 0.\<close>

definition pending :: "world \<Rightarrow> nat \<Rightarrow> string option" where
  "pending w k = stdin w (reads w + k)"

text \<open>An input that holds the lines \<open>ls\<close> and then ends.\<close>

definition lines_then_eof :: "string list \<Rightarrow> nat \<Rightarrow> string option" where
  "lines_then_eof ls k = (if k < length ls then Some (ls ! k) else None)"

text \<open>A line that the change-type prompt takes.\<close>

definition accepted :: "string \<Rightarrow> bool" where
  "accepted l = (lower (strip l) \<in> valid)"

text \<open>A process that has just started in directory \<open>/repo\<close>, with no files and no input.\<close>

definition blank_world :: world where
  "blank_world =
     \<lparr>cwd = ''/repo'', fs = (\<lambda>_. None), stdin = (\<lambda>_. None), reads = 0, out = [], trace = []\<rparr>"

text \<open>
  An environment from a decoder, a regex search and a rule for child processes; every
  pattern compiles, \<open>str\<close> gives the empty text and the clock stands at 0.
\<close>

definition fixture ::
  "(string \<Rightarrow> string + json) \<Rightarrow> (string \<Rightarrow> string \<Rightarrow> match option) \<Rightarrow>
   (string list \<Rightarrow> world \<Rightarrow> proc \<times> (string \<Rightarrow> node option)) \<Rightarrow> env" where
  "fixture dec search run =
     \<lparr>json_loads = dec, re_compile = (\<lambda>_. None), re_search = search, py_str = (\<lambda>_. []),
      subprocess_run = (\<lambda>argv _ w. run argv w), clock = (\<lambda>_. 0)\<rparr>"

text \<open>
  The seven required keys as the loader names them, each with the path to its value in the
  document.
\<close>

definition required_keys :: "(string \<times> string list) list" where
  "required_keys =
     [(''prTitleRegex'', [''prTitleRegex'']),
      (''targetBranch'', [''targetBranch'']),
      (''projectPackagePrefix'', [''projectPackagePrefix'']),
      (''packageManager'', [''packageManager'']),
      (''azure.organizationUrl'', [''azure'', ''organizationUrl'']),
      (''azure.project'', [''azure'', ''project'']),
      (''azure.repository'', [''azure'', ''repository''])]"

text \<open>The value at a path of keys; \<open>None\<close> where a key is absent or its parent is no dict.\<close>

fun value_at :: "json \<Rightarrow> string list \<Rightarrow> json" where
  "value_at v [] = v"
| "value_at (JObj kvs) (k # ks) = (case map_of kvs k of None \<Rightarrow> JNull | Some v \<Rightarrow> value_at v ks)"
| "value_at _ (k # ks) = JNull"

text \<open>
  The \<open>azure\<close> member of a document is absent, empty (\<open>None\<close>, false, zero, or an empty
  text, list or dict) or a dict.
\<close>

definition azure_shaped :: "(string \<times> json) list \<Rightarrow> bool" where
  "azure_shaped kvs =
     (case map_of kvs ''azure'' of
        None \<Rightarrow> True
      | Some v \<Rightarrow> (if truthy v then (case v of JObj _ \<Rightarrow> True | _ \<Rightarrow> False) else True))"

text \<open>
  The first of a list of directories that holds a \<open>package.json\<close>, as a path string; \<open>Inl\<close>
  when the system refuses the lookup that would decide it, which is the first lookup on the
  way that does not answer "not there".
\<close>

definition manifest_dir :: "world \<Rightarrow> ppath list \<Rightarrow> py_error + string option" where
  "manifest_dir w ds =
     (case find (\<lambda>d. exists w (joinpath d ''package.json'') \<noteq> Inr False) ds of
        None \<Rightarrow> Inr None
      | Some d \<Rightarrow>
          (case exists w (joinpath d ''package.json'') of
             Inl e \<Rightarrow> Inl e
           | Inr _ \<Rightarrow> Inr (Some (as_posix d))))"

text \<open>
  The changed packages in the words of the specification: for each changed file the first
  directory with a manifest, from the file's own directory upward; without duplicates, without
  the root path and nothing else left out, in ascending order. The specification has no word
  on a lookup that the system refuses; such a walk gives no directory here.
\<close>

definition claimed_packages :: "world \<Rightarrow> string list \<Rightarrow> string list" where
  "claimed_packages w changed_files =
     sort (remdups (filter (\<lambda>d. d \<noteq> ''.'' \<and> d \<noteq> ''/'')
        (List.map_filter
           (\<lambda>file. case manifest_dir w (parents (Path file)) of Inl e \<Rightarrow> None | Inr d \<Rightarrow> d)
           changed_files)))"

text \<open>
  The changeset file in the words of the specification: the opening delimiter line, one line
  for each changed package, the closing delimiter line, a blank line, and the stripped
  description with a newline after it when it is not empty.
\<close>

definition claimed_changeset_text :: "string \<Rightarrow> string list \<Rightarrow> string \<Rightarrow> string \<Rightarrow> string" where
  "claimed_changeset_text prefix changed_packages change_type description_md =
     ''---'' @ NL @
     concat (map (\<lambda>pkg_path. DQ @ prefix @ ''/'' @ name (Path pkg_path) @ DQ @ '': '' @
                               change_type @ NL) changed_packages) @
     ''---'' @ NL @
     NL @
     (if strip description_md \<noteq> [] then strip description_md @ NL else [])"

text \<open>
  A package manager and a git for one run: \<open>git rev-parse\<close> names the branch
  \<open>feature/add-login\<close>, \<open>pnpm changeset --empty\<close> puts a new file with the tool's text into
  \<open>/repo/.changeset\<close>, \<open>git status\<close> answers with the given text, the command \<open>failing\<close>
  ends with code 1 and every other command with code 0.
\<close>

definition tools :: "string \<Rightarrow> string list \<Rightarrow> string list \<Rightarrow> world \<Rightarrow> proc \<times> (string \<Rightarrow> node option)" where
  "tools status failing argv w =
     (if argv = failing then (Completed 1 [], fs w)
      else if argv = [''git'', ''rev-parse'', ''--abbrev-ref'', ''HEAD''] then
        (Completed 0 (''feature/add-login'' @ NL), fs w)
      else if argv = [''pnpm'', ''changeset'', ''--empty''] then
        (Completed 0 [],
         (fs w)(''/repo/.changeset'' \<mapsto> Dir [''README.md'', ''calm-dogs-run.md''],
                ''/repo/.changeset/calm-dogs-run.md'' \<mapsto> File (''---'' @ NL @ ''---'' @ NL) 5))
      else if argv = [''git'', ''status'', ''--porcelain''] then (Completed 0 status, fs w)
      else (Completed 0 [], fs w))"

text \<open>
  The libraries for one run: the decoder reads the configuration below from any text, and
  the search answers as \<open>re\<close> does for the pattern \<open>^feature/(?P<title>.+)$\<close> on a branch
  \<open>feature/...\<close>.
\<close>

definition repo_config :: json where
  "repo_config =
     JObj [(''prTitleRegex'', JStr ''^feature/(?P<title>.+)$''),
           (''packageManager'', JStr ''pnpm''),
           (''targetBranch'', JStr ''main''),
           (''projectPackagePrefix'', JStr ''@acme''),
           (''azure'', JObj [(''organizationUrl'', JStr ''https://dev.azure.com/acme''),
                            (''project'', JStr ''shop''),
                            (''repository'', JStr ''web'')])]"

definition feature_search :: "string \<Rightarrow> string \<Rightarrow> match option" where
  "feature_search pat text =
     (if pat = ''^feature/(?P<title>.+)$'' \<and> take 8 text = ''feature/'' \<and> 8 < length text
      then Some \<lparr>groups = [Some (drop 8 text)], groupdict = [(''title'', Some (drop 8 text))]\<rparr>
      else None)"

definition repo_env :: "string list \<Rightarrow> env" where
  "repo_env failing =
     fixture (\<lambda>_. Inr repo_config) feature_search
       (tools ('' M packages/web/src/a.ts'' @ NL) failing)"

text \<open>
  A working tree in \<open>/repo\<close>: the configuration file, the changeset directory with its README,
  and the package \<open>packages/web\<close>.
\<close>

definition repo_world :: world where
  "repo_world =
     blank_world\<lparr>fs := (\<lambda>_. None)
        (''/repo/blacky.conf.json'' \<mapsto> File ''doc'' 1,
         ''/repo/.changeset'' \<mapsto> Dir [''README.md''],
         ''/repo/.changeset/README.md'' \<mapsto> File ''# Changesets'' 1,
         ''packages/web/package.json'' \<mapsto> File ''{}'' 1)\<rparr>"

text \<open>
  \<open>handle_create_pr\<close> in three parts, for the statements about its stages. The first part is
  the function up to the changeset: it ends the run (\<open>Inl\<close>, with the exit status or the
  exception), or hands the configuration, the branch, the title, the description and the
  state on to the build (\<open>Inr\<close>). It takes no command-line argument.
\<close>

definition stages_before_build ::
  "env \<Rightarrow> world \<Rightarrow>
     (((py_error + int) \<times> world) + (BlackyConfig \<times> string \<times> string \<times> string \<times> world)) option" where
  "stages_before_build E w =
     (let dir = Path (cwd w) in
      case load_config_file E (joinpath dir DEFAULT_CONFIG_FILE) (print_section ''Configuration'' w) of
        (Inl e, w1) \<Rightarrow> Some (Inl (Inl e, w1))
      | (Inr None, w1) \<Rightarrow> Some (Inl (Inr 1, w1))
      | (Inr (Some config), w1) \<Rightarrow>
     (case get_current_branch E (print_section ''Git'' w1) of
        (Inl e, w2) \<Rightarrow> Some (Inl (Inl e, w2))
      | (Inr None, w2) \<Rightarrow>
          Some (Inl (Inr 1, emit (Error ''Without a current branch I cannot create a PR.'') w2))
      | (Inr (Some current_branch), w2) \<Rightarrow>
          if current_branch = [] then
            Some (Inl (Inr 1, emit (Error ''Without a current branch I cannot create a PR.'') w2))
          else
     (case build_pr_title_from_branch E current_branch (pr_title_regex config) w2 of
        (Inl e, w3) \<Rightarrow> Some (Inl (Inl e, w3))
      | (Inr title, w3) \<Rightarrow>
     (case ask_multiline_markdown ''Please provide a PR description in Markdown.''
             (emit (Info (''Suggested PR title: '' @ title)) w3) of
        None \<Rightarrow> None
      | Some (description, w4) \<Rightarrow>
     (case ask_change_type
             (if description = [] then
                emit (Warn ''You did not provide a description. The PR will be a bit terse.'') w4
              else w4) of
        None \<Rightarrow> None
      | Some (Inl e, w5) \<Rightarrow> Some (Inl (Inl e, w5))
      | Some (Inr change_type, w5) \<Rightarrow>
     (case create_and_edit_changeset E (package_manager config) description change_type dir
             (project_pkg_prefix config) w5 of
        (Inl e, w6) \<Rightarrow> Some (Inl (Inl e, w6))
      | (Inr None, w6) \<Rightarrow>
          Some (Inl (Inr 1,
                emit (Error (''I could not create a valid changeset. '' @
                             ''No PR without a changeset, sorry.'')) w6))
      | (Inr (Some changeset_path), w6) \<Rightarrow>
          Some (Inr (config, current_branch, title, description, w6))))))))"

text \<open>The second part: the local build, which ends the run unless both steps succeed.\<close>

definition stages_before_pr ::
  "env \<Rightarrow> world \<Rightarrow>
     (((py_error + int) \<times> world) + (BlackyConfig \<times> string \<times> string \<times> string \<times> world)) option" where
  "stages_before_pr E w =
     (case stages_before_build E w of
        None \<Rightarrow> None
      | Some (Inl x) \<Rightarrow> Some (Inl x)
      | Some (Inr (config, current_branch, title, description, w6)) \<Rightarrow>
          (case run_local_build E (package_manager config) (Path (cwd w)) w6 of
             (Inl e, w7) \<Rightarrow> Some (Inl (Inl e, w7))
           | (Inr ok, w7) \<Rightarrow>
               if ok then Some (Inr (config, current_branch, title, description, w7))
               else Some (Inl (Inr 1, w7))))"

text \<open>The third part: the call of \<open>create_azure_pr\<close> and the exit status from its answer.\<close>

definition submit_pr ::
  "env \<Rightarrow> args \<Rightarrow> string \<Rightarrow> BlackyConfig \<times> string \<times> string \<times> string \<times> world \<Rightarrow>
     (py_error + int) \<times> world" where
  "submit_pr E a dir x =
     (case x of (config, current_branch, title, description, w7) \<Rightarrow>
       (case create_azure_pr E
               (organization_url (azure config)) (project (azure config)) (repository (azure config))
               current_branch (target_branch config) title
               (if description \<noteq> [] then description
                else ''Automatically created by blacky for branch '' @ current_branch)
               (az_args a) (Path dir) (dry_run a) w7 of
          (Inl e, w8) \<Rightarrow> (Inl e, w8)
        | (Inr success, w8) \<Rightarrow> (Inr (if success then 0 else 1), w8)))"

text \<open>The command that opens the pull request, by the start of its argument vector.\<close>

definition is_pr_create :: "string list \<Rightarrow> bool" where
  "is_pr_create argv = (take 4 argv = [''az'', ''repos'', ''pr'', ''create''])"

text \<open>The two commands of the local build, for any package manager.\<close>

fun build_step :: "string list \<Rightarrow> bool" where
  "build_step [pm, x] = (x = ''install'')"
| "build_step [pm, x, y] = (x = ''run'' \<and> y = ''build:all'')"
| "build_step _ = False"

text \<open>
  From the state \<open>w\<close> to the later state \<open>w'\<close> the pull request was neither submitted nor shown
  as a dry run: no such command joined the trace, and the line that opens the dry-run display
  was not printed.
\<close>

definition no_pr_between :: "world \<Rightarrow> world \<Rightarrow> bool" where
  "no_pr_between w w' =
     (take (length (trace w)) (trace w') = trace w \<and>
      take (length (out w)) (out w') = out w \<and>
      \<not> list_ex (\<lambda>x. is_pr_create (fst x)) (drop (length (trace w)) (trace w')) \<and>
      \<not> list_ex (\<lambda>e. e = Print ''Command would be:'') (drop (length (out w)) (out w')))"

text \<open>One more round of the change-type prompt: the question, and the reminder after a line it does not take.\<close>

abbreviation ask_again :: "event list" where
  "ask_again \<equiv> [Prompt ''Change type for this changeset? [patch/minor/major]: '',
                 Print ''Please enter 'patch', 'minor' or 'major'.'']"

section \<open>The description prompt\<close>

lemma read_description_run:
  assumes "\<forall>k<n. \<exists>l. pending w k = Some l \<and> strip l \<noteq> ''.''"
    and "case pending w n of None \<Rightarrow> True | Some l \<Rightarrow> strip l = ''.''"
  shows "read_description acc w =
           Some (acc @ map (\<lambda>k. the (pending w k)) [0..<n],
                 w\<lparr>reads := reads w + n + 1, out := out w @ replicate (n + 1) (Prompt ''> '')\<rparr>)"
  using assms
proof (induction n arbitrary: acc w)
  case 0
  then show ?case
    by (subst read_description.simps)
       (auto simp: input_line_def emit_def pending_def split: option.splits)
next
  case (Suc n)
  from Suc.prems(1) obtain l where l: "stdin w (reads w) = Some l" "strip l \<noteq> ''.''"
    by (force simp: pending_def)
  define w1 where "w1 = (emit (Prompt ''> '') w)\<lparr>reads := Suc (reads w)\<rparr>"
  have p1: "pending w1 k = pending w (Suc k)" for k
    by (simp add: w1_def emit_def pending_def)
  have a: "\<forall>k<n. \<exists>l. pending w1 k = Some l \<and> strip l \<noteq> ''.''"
    using Suc.prems(1) by (auto simp: p1)
  have b: "case pending w1 n of None \<Rightarrow> True | Some l \<Rightarrow> strip l = ''.''"
    using Suc.prems(2) by (simp add: p1)
  have step: "read_description acc w = read_description (acc @ [l]) w1"
    by (subst read_description.simps) (simp add: input_line_def l w1_def)
  have m: "map (\<lambda>k. the (pending w k)) [0..<Suc n] = l # map (\<lambda>k. the (pending w1 k)) [0..<n]"
  proof -
    have "pending w 0 = Some l" using l by (simp add: pending_def)
    then show ?thesis by (simp add: map_upt_Suc p1 del: upt_Suc)
  qed
  show ?case
    unfolding step Suc.IH [OF a b] m
    by (simp add: w1_def emit_def replicate_append_same)
qed

lemma pending_lines_then_eof:
  "pending (w\<lparr>stdin := lines_then_eof ls, reads := 0\<rparr>) k = lines_then_eof ls k"
  by (simp add: pending_def)

lemma read_description_lines:
  fixes ls :: "string list"
  defines "taken \<equiv> takeWhile (\<lambda>l. strip l \<noteq> ''.'') ls"
  assumes w: "stdin w = lines_then_eof ls" "reads w = 0"
  shows "read_description [] w =
           Some (taken, w\<lparr>reads := length taken + 1,
                           out := out w @ replicate (length taken + 1) (Prompt ''> '')\<rparr>)"
proof -
  have len: "length taken \<le> length ls"
    by (simp add: taken_def length_takeWhile_le)
  have p: "pending w k = lines_then_eof ls k" for k
    by (simp add: pending_def w)
  have a: "\<forall>k<length taken. \<exists>l. pending w k = Some l \<and> strip l \<noteq> ''.''"
  proof (intro allI impI)
    fix k assume k: "k < length taken"
    then have "k < length ls" using len by simp
    moreover have "taken ! k \<in> set taken" using k by simp
    then have "strip (taken ! k) \<noteq> ''.''"
      unfolding taken_def by (rule set_takeWhileD [THEN conjunct2])
    moreover have "taken ! k = ls ! k"
      using k unfolding taken_def by (rule takeWhile_nth)
    ultimately show "\<exists>l. pending w k = Some l \<and> strip l \<noteq> ''.''"
      by (simp add: p lines_then_eof_def)
  qed
  have b: "case pending w (length taken) of None \<Rightarrow> True | Some l \<Rightarrow> strip l = ''.''"
  proof (cases "length taken < length ls")
    case True
    then have "\<not> strip (ls ! length taken) \<noteq> ''.''"
      unfolding taken_def by (rule nth_length_takeWhile)
    with True show ?thesis by (simp add: p lines_then_eof_def)
  next
    case False
    then show ?thesis by (simp add: p lines_then_eof_def)
  qed
  have m: "map (\<lambda>k. the (pending w k)) [0..<length taken] = taken"
  proof (rule nth_equalityI)
    show "length (map (\<lambda>k. the (pending w k)) [0..<length taken]) = length taken" by simp
  next
    fix i assume "i < length (map (\<lambda>k. the (pending w k)) [0..<length taken])"
    then have i: "i < length taken" by simp
    then have "i < length ls" using len by simp
    moreover have "taken ! i = ls ! i"
      using i unfolding taken_def by (rule takeWhile_nth)
    ultimately show "map (\<lambda>k. the (pending w k)) [0..<length taken] ! i = taken ! i"
      using i by (simp add: p lines_then_eof_def)
  qed
  show ?thesis
    using read_description_run [OF a b, of "[]"] by (simp add: m w)
qed

text \<open>
  C8, as the code has it: for every sequence of input lines, the description prompt collects
  the lines before the first line whose stripped form is a single dot, or all of them when
  the input ends first, and returns them joined by newlines and stripped.
\<close>

theorem description_prompt_collects:
  "map_option fst (ask_multiline_markdown prompt (w\<lparr>stdin := lines_then_eof ls, reads := 0\<rparr>))
     = Some (strip (join NL (takeWhile (\<lambda>l. strip l \<noteq> ''.'') ls)))"
  by (simp add: ask_multiline_markdown_def print_section_def emit_def Let_def
        read_description_lines)

text \<open>
  The two inputs of the specification: the lines \<open>Line one\<close>, \<open>Line two\<close> with and
  without the closing dot give the same description.
\<close>

theorem description_prompt_collects_witness:
  "map_option fst (ask_multiline_markdown ''Describe''
       (blank_world\<lparr>stdin := lines_then_eof [''Line one'', ''Line two'', ''.''], reads := 0\<rparr>))
     = Some (''Line one'' @ NL @ ''Line two'')
   \<and> map_option fst (ask_multiline_markdown ''Describe''
       (blank_world\<lparr>stdin := lines_then_eof [''Line one'', ''Line two''], reads := 0\<rparr>))
     = Some (''Line one'' @ NL @ ''Line two'')"
  using description_prompt_collects
          [where prompt = "''Describe''" and w = blank_world and ls = "[''Line one'', ''Line two'', ''.'']"]
        description_prompt_collects
          [where prompt = "''Describe''" and w = blank_world and ls = "[''Line one'', ''Line two'']"]
  by (simp add: strip_def py_isspace_def)

text \<open>
  C8 as stated stops only at a line that is exactly one dot. On the lines \<open>" ."\<close>, \<open>"x"\<close> the
  prompt stops at the first line and returns the empty text, where that reading collects both
  lines.
\<close>

theorem description_prompt_dot_counterexample:
  "map_option fst (ask_multiline_markdown ''Describe''
       (blank_world\<lparr>stdin := lines_then_eof ['' .'', ''x''], reads := 0\<rparr>)) = Some []
   \<and> strip (join NL (takeWhile (\<lambda>l. l \<noteq> ''.'') ['' .'', ''x''])) = ''.'' @ NL @ ''x''"
  by (simp add: ask_multiline_markdown_def print_section_def emit_def Let_def
        read_description_lines strip_def py_isspace_def)

section \<open>The change-type prompt\<close>

lemma read_change_type_run:
  assumes "\<forall>k<n. \<exists>l. pending w k = Some l \<and> \<not> accepted l"
  shows "read_change_type w =
           (case pending w n of
              None \<Rightarrow> Some (Inl EOFError,
                  w\<lparr>reads := reads w + n + 1,
                    out := out w @ concat (replicate n ask_again) @ [hd ask_again]\<rparr>)
            | Some l \<Rightarrow>
                if accepted l then
                  Some (Inr (lower (strip l)),
                    w\<lparr>reads := reads w + n + 1,
                      out := out w @ concat (replicate n ask_again) @ [hd ask_again]\<rparr>)
                else read_change_type
                    (w\<lparr>reads := reads w + n + 1,
                      out := out w @ concat (replicate (n + 1) ask_again)\<rparr>))"
  using assms
proof (induction n arbitrary: w)
  case 0
  show ?case
    by (subst read_change_type.simps)
       (simp add: input_line_def emit_def pending_def accepted_def Let_def split: option.splits)
next
  case (Suc n)
  from Suc.prems obtain l where l: "pending w 0 = Some l" "\<not> accepted l"
    by force
  define w1 where "w1 = w\<lparr>reads := reads w + 1, out := out w @ ask_again\<rparr>"
  have p1: "pending w1 k = pending w (Suc k)" for k
    by (simp add: w1_def pending_def)
  have a: "\<forall>k<n. \<exists>l. pending w1 k = Some l \<and> \<not> accepted l"
    using Suc.prems by (auto simp: p1)
  have step: "read_change_type w = read_change_type w1"
    using l
    by (subst read_change_type.simps)
       (simp add: input_line_def emit_def pending_def accepted_def Let_def w1_def)
  have c: "ask_again @ concat (replicate k ask_again) = concat (replicate k ask_again) @ ask_again" for k
    by (induction k) simp_all
  show ?case
    unfolding step Suc.IH [OF a] p1
    using c [of n] c [of "Suc n"]
    by (simp add: w1_def split: option.splits)
qed

lemma read_change_type_stops:
  assumes "read_change_type w = Some r"
  shows "\<exists>n. (\<forall>k<n. \<exists>l. pending w k = Some l \<and> \<not> accepted l) \<and>
              (case pending w n of None \<Rightarrow> True | Some l \<Rightarrow> accepted l)"
  using assms
proof (induction w r rule: read_change_type.raw_induct [rotated, consumes 1])
  case (1 rct w r)
  show ?case
  proof (cases "pending w 0")
    case None
    then have "(\<forall>k<0. \<exists>l. pending w k = Some l \<and> \<not> accepted l) \<and>
               (case pending w 0 of None \<Rightarrow> True | Some l \<Rightarrow> accepted l)" by simp
    then show ?thesis by blast
  next
    case (Some l)
    show ?thesis
    proof (cases "accepted l")
      case True
      with Some have "(\<forall>k<0. \<exists>l. pending w k = Some l \<and> \<not> accepted l) \<and>
               (case pending w 0 of None \<Rightarrow> True | Some l \<Rightarrow> accepted l)" by simp
      then show ?thesis by blast
    next
      case False
      define w1 where "w1 = emit (Print ''Please enter 'patch', 'minor' or 'major'.'')
          ((emit (Prompt ''Change type for this changeset? [patch/minor/major]: '') w)\<lparr>reads := Suc (reads w)\<rparr>)"
      have "rct w1 = Some r"
        using 1(2) Some False
        by (simp add: input_line_def pending_def accepted_def Let_def w1_def)
      from 1(1) [OF this] obtain n where
        n: "\<forall>k<n. \<exists>l. pending w1 k = Some l \<and> \<not> accepted l"
           "case pending w1 n of None \<Rightarrow> True | Some l \<Rightarrow> accepted l"
        by blast
      have p1: "pending w1 k = pending w (Suc k)" for k
        by (simp add: w1_def pending_def emit_def)
      have "\<forall>k<Suc n. \<exists>l. pending w k = Some l \<and> \<not> accepted l"
      proof (intro allI impI)
        fix k assume "k < Suc n"
        then show "\<exists>l. pending w k = Some l \<and> \<not> accepted l"
          using n(1) Some False by (cases k) (auto simp: p1)
      qed
      moreover have "case pending w (Suc n) of None \<Rightarrow> True | Some l \<Rightarrow> accepted l"
        using n(2) by (simp add: p1)
      ultimately show ?thesis by blast
    qed
  qed
qed

lemma pending_print_section [simp]: "pending (print_section t w) = pending w"
  by (rule ext) (simp add: pending_def print_section_def emit_def Let_def)

lemma first_stop:
  assumes "case pending w n of None \<Rightarrow> True | Some l \<Rightarrow> accepted l"
  shows "\<exists>m\<le>n. (case pending w m of None \<Rightarrow> True | Some l \<Rightarrow> accepted l) \<and>
              (\<forall>k<m. \<exists>l. pending w k = Some l \<and> \<not> accepted l)"
proof -
  let ?P = "\<lambda>m. case pending w m of None \<Rightarrow> True | Some l \<Rightarrow> accepted l"
  from assms have "\<exists>m. ?P m" by blast
  then obtain m where m: "?P m" "\<forall>k<m. \<not> ?P k"
    unfolding exists_least_iff [of ?P] by blast
  have "m \<le> n"
    using m(2) assms by (meson not_le_imp_less)
  moreover have "\<exists>l. pending w k = Some l \<and> \<not> accepted l" if "k < m" for k
    using m(2) that by (cases "pending w k") auto
  ultimately show ?thesis using m(1) by blast
qed

text \<open>
  C9, as the code has it: the change-type prompt returns at the first line whose stripped,
  lower-cased form is \<open>patch\<close>, \<open>minor\<close> or \<open>major\<close>, with that form as its value, after asking
  again once for each earlier line; it returns a value if and only if such a line comes
  before any end of input; and it never stops if and only if the input is endless and holds no
  such line.
\<close>

theorem change_type_prompt:
  "(\<forall>n l. pending w n = Some l \<and> accepted l \<and> (\<forall>k<n. \<exists>l'. pending w k = Some l' \<and> \<not> accepted l')
      \<longrightarrow> (\<exists>w'. ask_change_type w = Some (Inr (lower (strip l)), w') \<and>
                reads w' = reads w + n + 1 \<and>
                out w' = out (print_section ''Change Type'' w) @ concat (replicate n ask_again) @ [hd ask_again]))
   \<and> ((\<exists>v w'. ask_change_type w = Some (Inr v, w')) \<longleftrightarrow>
        (\<exists>n l. pending w n = Some l \<and> accepted l \<and> (\<forall>k<n. pending w k \<noteq> None)))
   \<and> (ask_change_type w = None \<longleftrightarrow> (\<forall>k. \<exists>l. pending w k = Some l \<and> \<not> accepted l))"
proof (intro conjI allI impI)
  let ?w = "print_section ''Change Type'' w"
  have rd: "reads ?w = reads w"
    by (simp add: print_section_def emit_def Let_def)
  {
    fix n l
    assume h: "pending w n = Some l \<and> accepted l \<and> (\<forall>k<n. \<exists>l'. pending w k = Some l' \<and> \<not> accepted l')"
    then have "\<forall>k<n. \<exists>l'. pending ?w k = Some l' \<and> \<not> accepted l'" by simp
    from read_change_type_run [OF this] h
    show "\<exists>w'. ask_change_type w = Some (Inr (lower (strip l)), w') \<and>
                reads w' = reads w + n + 1 \<and>
                out w' = out ?w @ concat (replicate n ask_again) @ [hd ask_again]"
      by (simp add: ask_change_type_def rd)
  }
  show "(\<exists>v w'. ask_change_type w = Some (Inr v, w')) \<longleftrightarrow>
        (\<exists>n l. pending w n = Some l \<and> accepted l \<and> (\<forall>k<n. pending w k \<noteq> None))"
  proof
    assume "\<exists>v w'. ask_change_type w = Some (Inr v, w')"
    then obtain v w' where r: "read_change_type ?w = Some (Inr v, w')"
      by (auto simp: ask_change_type_def)
    from read_change_type_stops [OF r] obtain n where
      n: "\<forall>k<n. \<exists>l. pending w k = Some l \<and> \<not> accepted l"
         "case pending w n of None \<Rightarrow> True | Some l \<Rightarrow> accepted l"
      by auto
    from n(1) have "\<forall>k<n. \<exists>l. pending ?w k = Some l \<and> \<not> accepted l" by simp
    from read_change_type_run [OF this] r n(2)
    obtain l where "pending w n = Some l" "accepted l"
      by (cases "pending w n") (auto split: if_splits)
    with n(1) show "\<exists>n l. pending w n = Some l \<and> accepted l \<and> (\<forall>k<n. pending w k \<noteq> None)"
      by force
  next
    assume "\<exists>n l. pending w n = Some l \<and> accepted l \<and> (\<forall>k<n. pending w k \<noteq> None)"
    then obtain n l where n: "pending w n = Some l" "accepted l" "\<forall>k<n. pending w k \<noteq> None"
      by blast
    then have "case pending w n of None \<Rightarrow> True | Some l \<Rightarrow> accepted l" by simp
    from first_stop [OF this] obtain m where
      m: "m \<le> n" "case pending w m of None \<Rightarrow> True | Some l \<Rightarrow> accepted l"
         "\<forall>k<m. \<exists>l. pending w k = Some l \<and> \<not> accepted l"
      by blast
    have "pending w m \<noteq> None"
      using m(1) n(1,3) by (cases "m = n") auto
    then obtain l' where l': "pending w m = Some l'" "accepted l'"
      using m(2) by (cases "pending w m") auto
    from m(3) have "\<forall>k<m. \<exists>l. pending ?w k = Some l \<and> \<not> accepted l" by simp
    from read_change_type_run [OF this] l'
    show "\<exists>v w'. ask_change_type w = Some (Inr v, w')"
      by (simp add: ask_change_type_def)
  qed
  show "ask_change_type w = None \<longleftrightarrow> (\<forall>k. \<exists>l. pending w k = Some l \<and> \<not> accepted l)"
  proof
    assume none: "ask_change_type w = None"
    show "\<forall>k. \<exists>l. pending w k = Some l \<and> \<not> accepted l"
    proof (rule ccontr)
      assume "\<not> (\<forall>k. \<exists>l. pending w k = Some l \<and> \<not> accepted l)"
      then obtain k where "case pending w k of None \<Rightarrow> True | Some l \<Rightarrow> accepted l"
        by (auto split: option.splits)
      from first_stop [OF this] obtain m where
        m: "case pending w m of None \<Rightarrow> True | Some l \<Rightarrow> accepted l"
           "\<forall>k<m. \<exists>l. pending w k = Some l \<and> \<not> accepted l"
        by blast
      from m(2) have "\<forall>k<m. \<exists>l. pending ?w k = Some l \<and> \<not> accepted l" by simp
      from read_change_type_run [OF this] m(1) none
      show False
        by (cases "pending w m") (auto simp: ask_change_type_def)
    qed
  next
    assume all: "\<forall>k. \<exists>l. pending w k = Some l \<and> \<not> accepted l"
    show "ask_change_type w = None"
    proof (cases "ask_change_type w")
      case None
      then show ?thesis .
    next
      case (Some r)
      then have "read_change_type ?w = Some r" by (simp add: ask_change_type_def)
      from read_change_type_stops [OF this] obtain n where
        "case pending w n of None \<Rightarrow> True | Some l \<Rightarrow> accepted l"
        by auto
      with all show ?thesis
        by (metis option.simps(5))
    qed
  qed
qed

lemma accepted_examples:
  "\<not> accepted ''foo''" "accepted ''minor''" "lower (strip ''minor'') = ''minor''"
  "accepted '' Minor ''" "lower (strip '' Minor '') = ''minor''"
  unfolding accepted_def by code_simp+

text \<open>The input \<open>foo\<close>, then \<open>Minor\<close> between blanks: one reminder, and the value \<open>minor\<close>.\<close>

theorem change_type_prompt_witness:
  "\<exists>w'. ask_change_type (blank_world\<lparr>stdin := lines_then_eof [''foo'', '' Minor '']\<rparr>)
           = Some (Inr ''minor'', w') \<and>
         reads w' = 2 \<and>
         out w' = out (print_section ''Change Type'' blank_world) @ ask_again @ [hd ask_again]"
  using change_type_prompt
          [where w = "blank_world\<lparr>stdin := lines_then_eof [''foo'', '' Minor '']\<rparr>",
           THEN conjunct1, rule_format, where n = 1 and l = "'' Minor ''"]
  by (simp add: pending_def lines_then_eof_def blank_world_def accepted_examples
        print_section_def emit_def Let_def numeral_2_eq_2)

text \<open>
  C9 as stated lets the prompt end only on an accepted line. On the single line \<open>foo\<close> followed
  by end of input it ends all the same: \<open>input\<close> raises \<open>EOFError\<close>, which the function does
  not catch.
\<close>

theorem change_type_prompt_eof_counterexample:
  "map_option fst (ask_change_type (blank_world\<lparr>stdin := lines_then_eof [''foo'']\<rparr>))
     = Some (Inl EOFError)
   \<and> list_ex accepted [''foo''] = False"
proof -
  let ?w = "print_section ''Change Type'' (blank_world\<lparr>stdin := lines_then_eof [''foo'']\<rparr>)"
  have "\<forall>k<1. \<exists>l. pending ?w k = Some l \<and> \<not> accepted l"
    by (simp add: pending_def lines_then_eof_def blank_world_def accepted_examples)
  from read_change_type_run [OF this]
  show ?thesis
    by (simp add: ask_change_type_def pending_def lines_then_eof_def blank_world_def
          accepted_examples)
qed

section \<open>The config loader\<close>

lemma foldl_emit:
  "foldl (\<lambda>w' key. emit (f key) w') w ks = w\<lparr>out := out w @ map f ks\<rparr>"
  by (induction ks arbitrary: w) (simp_all add: emit_def)

lemma filter_Cons_append: "filter P (x # xs) = (if P x then [x] else []) @ filter P xs"
  by simp

lemma missing_required:
  "map fst (filter (\<lambda>(k, path). \<not> truthy (value_at raw path)) required_keys) =
     (if \<not> truthy (value_at raw [''prTitleRegex'']) then [''prTitleRegex''] else []) @
     (if \<not> truthy (value_at raw [''targetBranch'']) then [''targetBranch''] else []) @
     (if \<not> truthy (value_at raw [''projectPackagePrefix'']) then [''projectPackagePrefix''] else []) @
     (if \<not> truthy (value_at raw [''packageManager'']) then [''packageManager''] else []) @
     (if \<not> truthy (value_at raw [''azure'', ''organizationUrl'']) then [''azure.organizationUrl''] else []) @
     (if \<not> truthy (value_at raw [''azure'', ''project'']) then [''azure.project''] else []) @
     (if \<not> truthy (value_at raw [''azure'', ''repository'']) then [''azure.repository''] else [])"
  unfolding required_keys_def filter_Cons_append
  by (simp only: filter.simps map_append append_Nil2 if_distrib [of "map fst"] list.map fst_conv
        case_prod_conv cong: if_cong)

lemma py_get_JObj: "py_get (JObj kvs) k = Inr (value_at (JObj kvs) [k])"
  by (simp add: py_get_def split: option.splits)

lemma azure_get:
  assumes "azure_shaped kvs"
  shows "py_get (if truthy (value_at (JObj kvs) [''azure'']) then value_at (JObj kvs) [''azure'']
                 else JObj []) k
           = Inr (value_at (JObj kvs) [''azure'', k])"
proof (cases "map_of kvs ''azure''")
  case None
  then show ?thesis by (simp add: py_get_def)
next
  case (Some v)
  show ?thesis
  proof (cases "truthy v")
    case True
    with assms Some obtain kvs' where "v = JObj kvs'"
      by (cases v) (auto simp: azure_shaped_def)
    with Some True show ?thesis by (simp add: py_get_def split: option.splits)
  next
    case False
    with Some show ?thesis by (cases v) (simp_all add: py_get_def)
  qed
qed

lemma check_config_shaped:
  assumes "azure_shaped kvs"
  shows "check_config (JObj kvs) w =
     (let raw = JObj kvs;
          missing = map fst (filter (\<lambda>(k, path). \<not> truthy (value_at raw path)) required_keys)
      in if missing = [] then
           (Inr (Some \<lparr>pr_title_regex = value_at raw [''prTitleRegex''],
                       package_manager = value_at raw [''packageManager''],
                       target_branch = value_at raw [''targetBranch''],
                       project_pkg_prefix = value_at raw [''projectPackagePrefix''],
                       azure = \<lparr>organization_url = value_at raw [''azure'', ''organizationUrl''],
                                project = value_at raw [''azure'', ''project''],
                                repository = value_at raw [''azure'', ''repository'']\<rparr>\<rparr>), w)
         else
           (Inr None,
            w\<lparr>out := out w @
                   [Error ''Your blacky.conf.json is missing some required fields:''] @
                   map (\<lambda>k. PrintErr (''  - '' @ k)) missing @
                   [PrintErr example_configuration]\<rparr>))"
  unfolding check_config_def Let_def py_get_JObj azure_get [OF assms] attempt_def sum.case
    missing_required foldl_emit
  by (simp add: emit_def)

text \<open>
  C1, as the code has it: for every JSON document that is an object whose \<open>azure\<close> member is
  absent, empty or itself an object, the loader fails validation if and only if one of the
  seven required values is absent or empty (\<open>None\<close>, false, zero, or an empty text, list or
  dict); on failure it reports exactly those keys, each once, in the loader's order, and
  then the example; when all seven are there it returns a configuration with these values.
\<close>

theorem load_config_reports_missing:
  assumes "fs w (as_posix config_path) = Some (File content t)"
    and "json_loads E content = Inr (JObj kvs)"
    and "azure_shaped kvs"
  shows "load_config_file E config_path w =
     (let raw = JObj kvs;
          missing = map fst (filter (\<lambda>(k, path). \<not> truthy (value_at raw path)) required_keys)
      in if missing = [] then
           (Inr (Some \<lparr>pr_title_regex = value_at raw [''prTitleRegex''],
                       package_manager = value_at raw [''packageManager''],
                       target_branch = value_at raw [''targetBranch''],
                       project_pkg_prefix = value_at raw [''projectPackagePrefix''],
                       azure = \<lparr>organization_url = value_at raw [''azure'', ''organizationUrl''],
                                project = value_at raw [''azure'', ''project''],
                                repository = value_at raw [''azure'', ''repository'']\<rparr>\<rparr>), w)
         else
           (Inr None,
            w\<lparr>out := out w @
                   [Error ''Your blacky.conf.json is missing some required fields:''] @
                   map (\<lambda>k. PrintErr (''  - '' @ k)) missing @
                   [PrintErr example_configuration]\<rparr>))"
  using assms(1,2) check_config_shaped [OF assms(3), of w]
  by (simp add: load_config_file_def)

lemma config_path_example:
  "as_posix (Path ''/repo/blacky.conf.json'') = ''/repo/blacky.conf.json''"
  "as_posix (joinpath (Path ''/repo'') DEFAULT_CONFIG_FILE) = ''/repo/blacky.conf.json''"
  by code_simp+

text \<open>
  A document with an empty \<open>targetBranch\<close> and without \<open>projectPackagePrefix\<close> and
  \<open>azure.repository\<close>: these three keys are reported, and no other.
\<close>

theorem load_config_reports_missing_witness:
  "load_config_file
     (fixture (\<lambda>text. Inr (JObj [(''prTitleRegex'', JStr ''^feature/(.+)$''),
                                   (''packageManager'', JStr ''pnpm''),
                                   (''targetBranch'', JStr []),
                                   (''azure'', JObj [(''organizationUrl'', JStr ''https://dev.azure.com/acme''),
                                                    (''project'', JStr ''shop'')])]))
        (\<lambda>_ _. None) (\<lambda>_ w. (NotStarted, fs w)))
     (Path ''/repo/blacky.conf.json'')
     (blank_world\<lparr>fs := (\<lambda>_. None)(''/repo/blacky.conf.json'' \<mapsto> File ''doc'' 0)\<rparr>)
   = (Inr None,
      blank_world\<lparr>fs := (\<lambda>_. None)(''/repo/blacky.conf.json'' \<mapsto> File ''doc'' 0),
                   out := [Error ''Your blacky.conf.json is missing some required fields:'',
                           PrintErr ''  - targetBranch'',
                           PrintErr ''  - projectPackagePrefix'',
                           PrintErr ''  - azure.repository'',
                           PrintErr example_configuration]\<rparr>)"
  using load_config_reports_missing
    [where E = "fixture (\<lambda>text. Inr (JObj [(''prTitleRegex'', JStr ''^feature/(.+)$''),
                                   (''packageManager'', JStr ''pnpm''),
                                   (''targetBranch'', JStr []),
                                   (''azure'', JObj [(''organizationUrl'', JStr ''https://dev.azure.com/acme''),
                                                    (''project'', JStr ''shop'')])]))
        (\<lambda>_ _. None) (\<lambda>_ w. (NotStarted, fs w))"
       and config_path = "Path ''/repo/blacky.conf.json''"
       and w = "blank_world\<lparr>fs := (\<lambda>_. None)(''/repo/blacky.conf.json'' \<mapsto> File ''doc'' 0)\<rparr>"
       and content = "''doc''" and t = 0
       and kvs = "[(''prTitleRegex'', JStr ''^feature/(.+)$''),
                                   (''packageManager'', JStr ''pnpm''),
                                   (''targetBranch'', JStr []),
                                   (''azure'', JObj [(''organizationUrl'', JStr ''https://dev.azure.com/acme''),
                                                    (''project'', JStr ''shop'')])]"]
  by (simp add: config_path_example fixture_def azure_shaped_def required_keys_def blank_world_def)

text \<open>
  C1 as stated covers every JSON object. Where \<open>azure\<close> is a text, the three values under it
  are absent, but the loader neither reports them nor returns a configuration: \<open>azure_raw.get\<close>
  raises \<open>AttributeError\<close>.
\<close>

theorem load_config_azure_text_counterexample:
  "fst (load_config_file
     (fixture (\<lambda>text. Inr (JObj [(''prTitleRegex'', JStr ''^feature/(.+)$''),
                                   (''packageManager'', JStr ''pnpm''),
                                   (''targetBranch'', JStr ''main''),
                                   (''projectPackagePrefix'', JStr ''@acme''),
                                   (''azure'', JStr ''acme'')]))
        (\<lambda>_ _. None) (\<lambda>_ w. (NotStarted, fs w)))
     (Path ''/repo/blacky.conf.json'')
     (blank_world\<lparr>fs := (\<lambda>_. None)(''/repo/blacky.conf.json'' \<mapsto> File ''doc'' 0)\<rparr>))
   = Inl AttributeError"
  by (simp add: load_config_file_def config_path_example fixture_def check_config_def attempt_def
        py_get_def)

section \<open>Dry-run PR submission\<close>

lemma those_map_Some: "those (map (\<lambda>x. Some (f x)) xs) = Some (map f xs)"
  by (induction xs) simp_all

lemma shown_JStr:
  "map (shown E) (map JStr xs) = map (\<lambda>c. Some (if has_space c then SQ @ c @ SQ else c)) xs"
  by (induction xs) simp_all

lemma section_azure:
  "print_section ''Azure DevOps PR'' w =
     emit (Print (NL @ replicate 19 CHR ''-'' @ NL @ ''Azure DevOps PR'' @ NL @ replicate 19 CHR ''-'')) w"
  by (simp add: print_section_def Let_def)

lemma az_cmd_JStr:
  "az_cmd (JStr org_url) (JStr project') (JStr repo) source_branch (JStr target_branch')
       title description_md extra_az_args
     = map JStr ([''az'', ''repos'', ''pr'', ''create'',
                  ''--organization'', org_url,
                  ''--project'', project',
                  ''--repository'', repo,
                  ''--source-branch'', source_branch,
                  ''--target-branch'', target_branch',
                  ''--title'', title,
                  ''--description'', description_md] @ extra_az_args)"
  by (simp add: az_cmd_def)



section \<open>The PR title\<close>

lemma title_of_match:
  assumes "re_compile E pat = None" and "re_search E pat branch = Some m"
  shows "build_pr_title_from_branch E branch (JStr pat) w =
           (case group_title m of
              Some t \<Rightarrow> (Inr (strip t), w)
            | None \<Rightarrow>
                (case groups m of
                   [] \<Rightarrow> (Inr branch, w)
                 | None # _ \<Rightarrow> (Inl AttributeError, w)
                 | Some g # _ \<Rightarrow> (Inr (strip g), w)))"
  using assms
  by (simp add: build_pr_title_from_branch_def split: option.splits list.splits)

lemma title_falls_back:
  assumes "re_compile E pat \<noteq> None \<or> re_search E pat branch = None"
  shows "\<exists>msg. build_pr_title_from_branch E branch (JStr pat) w = (Inr branch, emit (Warn msg) w)"
  using assms
  by (auto simp: build_pr_title_from_branch_def split: option.splits)

lemma title_examples:
  assumes "re_compile E ''^feature/(?P<title>.+)$'' = None"
    and "re_search E ''^feature/(?P<title>.+)$'' ''feature/add-login''
           = Some \<lparr>groups = [Some ''add-login''], groupdict = [(''title'', Some ''add-login'')]\<rparr>"
    and "re_compile E (''^bugfix/('' @ [CHR 0x5C] @ ''d+-.+)$'') = None"
    and "re_search E (''^bugfix/('' @ [CHR 0x5C] @ ''d+-.+)$'') ''bugfix/123-fix''
           = Some \<lparr>groups = [Some ''123-fix''], groupdict = []\<rparr>"
  shows "build_pr_title_from_branch E ''feature/add-login'' (JStr ''^feature/(?P<title>.+)$'') w
           = (Inr ''add-login'', w)"
    and "build_pr_title_from_branch E ''bugfix/123-fix'' (JStr (''^bugfix/('' @ [CHR 0x5C] @ ''d+-.+)$'')) w
           = (Inr ''123-fix'', w)"
  using assms
  by (simp_all add: build_pr_title_from_branch_def group_title_def strip_def py_isspace_def)

text \<open>
  C2 at the branch \<open>main\<close> with the pattern \<open>^(?:feature/(?P<title>.+)|(.+))$\<close>. The search
  matches through the second alternative: \<open>m.groups()\<close> is \<open>(None, 'main')\<close> and the group
  \<open>title\<close> is \<open>None\<close>. The pattern has capture groups, so the title of C2 is the captured
  text \<open>main\<close>; the function takes \<open>m.group(1)\<close>, which is \<open>None\<close>, and \<open>strip\<close> on it raises
  \<open>AttributeError\<close>.
\<close>

theorem title_alternative_pattern_raises:
  "fst (build_pr_title_from_branch
          (fixture (\<lambda>_. Inl [])
             (\<lambda>pat text. if pat = ''^(?:feature/(?P<title>.+)|(.+))$'' \<and> text = ''main''
                           then Some \<lparr>groups = [None, Some ''main''], groupdict = [(''title'', None)]\<rparr>
                           else None)
             (\<lambda>_ w. (NotStarted, fs w)))
          ''main'' (JStr ''^(?:feature/(?P<title>.+)|(.+))$'') blank_world)
     = Inl AttributeError"
  by (simp add: build_pr_title_from_branch_def fixture_def group_title_def)

text \<open>
  C3 at the branch \<open>main\<close> with the pattern \<open>(x)?\<close>. The pattern compiles and matches the
  empty text with its only group unset, \<open>m.groups()\<close> is \<open>(None,)\<close>; the function does not
  return a title, it raises \<open>AttributeError\<close>.
\<close>

theorem title_optional_group_raises:
  "fst (build_pr_title_from_branch
          (fixture (\<lambda>_. Inl [])
             (\<lambda>pat text. if pat = ''(x)?'' \<and> text = ''main''
                           then Some \<lparr>groups = [None], groupdict = []\<rparr>
                           else None)
             (\<lambda>_ w. (NotStarted, fs w)))
          ''main'' (JStr ''(x)?'') blank_world)
     = Inl AttributeError"
  by (simp add: build_pr_title_from_branch_def fixture_def group_title_def)

section \<open>Changed packages\<close>

lemma exists_error: "exists w p = Inl e \<Longrightarrow> e = OSError"
  by (auto simp: exists_def split: option.splits node.splits)

lemma manifest_dir_error: "manifest_dir w ds = Inl e \<Longrightarrow> e = OSError"
  by (auto simp: manifest_dir_def dest: exists_error split: option.splits sum.splits)

lemma add_package_manifest_dir:
  "add_package w ds S =
     (case manifest_dir w ds of
        Inl e \<Rightarrow> Inl e
      | Inr None \<Rightarrow> Inr S
      | Inr (Some d) \<Rightarrow> Inr (insert d S))"
  by (induction ds) (auto simp: manifest_dir_def split: sum.splits bool.splits)

lemma add_packages_refused:
  "\<exists>f\<in>set files. manifest_dir w (Path f # parents (Path f)) = Inl OSError \<Longrightarrow>
   add_packages w files S0 = Inl OSError"
proof (induction files arbitrary: S0)
  case Nil
  then show ?case by simp
next
  case (Cons f files)
  show ?case
  proof (cases "manifest_dir w (Path f # parents (Path f))")
    case (Inl e)
    then show ?thesis
      using manifest_dir_error [OF Inl] by (simp add: add_package_manifest_dir)
  next
    case (Inr r)
    with Cons.prems have "\<exists>f\<in>set files. manifest_dir w (Path f # parents (Path f)) = Inl OSError"
      by auto
    then show ?thesis
      using Inr Cons.IH by (simp add: add_package_manifest_dir split: option.splits)
  qed
qed

lemma add_packages_answered:
  "\<forall>f\<in>set files. manifest_dir w (Path f # parents (Path f)) \<noteq> Inl OSError \<Longrightarrow>
   add_packages w files S0 =
     Inr (S0 \<union> {d. \<exists>f\<in>set files. manifest_dir w (Path f # parents (Path f)) = Inr (Some d)})"
proof (induction files arbitrary: S0)
  case Nil
  show ?case by simp
next
  case (Cons f files)
  from Cons.prems have rest: "\<forall>f\<in>set files. manifest_dir w (Path f # parents (Path f)) \<noteq> Inl OSError"
    by simp
  show ?case
  proof (cases "manifest_dir w (Path f # parents (Path f))")
    case (Inl e)
    with Cons.prems manifest_dir_error [OF Inl] show ?thesis by simp
  next
    case (Inr r)
    then show ?thesis
      using Cons.IH [OF rest]
      by (cases r) (auto simp: add_package_manifest_dir)
  qed
qed

lemma finite_manifest_dirs: "finite {d. \<exists>f\<in>set files. manifest_dir w (c f) = Inr (Some d)}"
proof -
  have "{d. \<exists>f\<in>set files. manifest_dir w (c f) = Inr (Some d)}
          \<subseteq> (\<lambda>f. the (projr (manifest_dir w (c f)))) ` set files"
    by force
  then show ?thesis by (rule finite_subset) simp
qed

lemma packages_of_refused:
  "\<exists>f\<in>set files. manifest_dir w (Path f # parents (Path f)) = Inl OSError \<Longrightarrow>
   packages_of w files = Inl OSError"
  by (simp add: packages_of_def add_packages_refused)

lemma packages_of_answered:
  assumes "\<forall>f\<in>set files. manifest_dir w (Path f # parents (Path f)) \<noteq> Inl OSError"
  obtains pkgs where
    "packages_of w files = Inr pkgs" "sorted pkgs" "distinct pkgs"
    "set pkgs = {d. 1 < length d \<and>
                    (\<exists>f\<in>set files. manifest_dir w (Path f # parents (Path f)) = Inr (Some d))}"
proof -
  let ?S = "{d. \<exists>f\<in>set files. manifest_dir w (Path f # parents (Path f)) = Inr (Some d)}"
  let ?pkgs = "sorted_list_of_set (Set.filter (\<lambda>pkg. 1 < length pkg) ?S)"
  have fin: "finite ?S"
    by (rule finite_manifest_dirs [of files w "\<lambda>f. Path f # parents (Path f)"])
  have "packages_of w files = Inr ?pkgs"
    by (simp add: packages_of_def add_packages_answered [OF assms])
  moreover have "sorted ?pkgs" "distinct ?pkgs"
    by simp_all
  moreover have "set ?pkgs = {d. 1 < length d \<and> d \<in> ?S}"
    using fin by auto
  ultimately show ?thesis
    using that by simp
qed

text \<open>
  C4, as the code has it, for every list of changed paths. The walk of a changed path looks
  for a \<open>package.json\<close> in the path itself and then in its ancestors, upward, and ends at the
  first lookup that is not answered "not there". If the system refuses the lookup that ends
  the walk of one of the paths, no list is returned: \<open>OSError\<close> is raised. Otherwise a list
  is returned; it is in ascending order and without duplicates; each of its entries is, for
  one of the changed paths, the directory at which the walk found the \<open>package.json\<close>; every
  such directory with a path string longer than one character is in the list; and the root
  path \<open>.\<close> is not.
\<close>

theorem changed_packages_sorted_manifest_dirs:
  "(if \<exists>f\<in>set files. manifest_dir w (Path f # parents (Path f)) = Inl OSError
    then packages_of w files = Inl OSError
    else \<exists>pkgs. packages_of w files = Inr pkgs \<and> sorted pkgs \<and> distinct pkgs \<and>
           (\<forall>d. d \<in> set pkgs \<longrightarrow>
                (\<exists>f\<in>set files. manifest_dir w (Path f # parents (Path f)) = Inr (Some d))) \<and>
           (\<forall>f\<in>set files. \<forall>d.
                manifest_dir w (Path f # parents (Path f)) = Inr (Some d) \<and> 1 < length d \<longrightarrow>
                d \<in> set pkgs) \<and>
           ''.'' \<notin> set pkgs)"
proof (cases "\<exists>f\<in>set files. manifest_dir w (Path f # parents (Path f)) = Inl OSError")
  case True
  then show ?thesis
    by (simp add: packages_of_refused)
next
  case False
  then have "\<forall>f\<in>set files. manifest_dir w (Path f # parents (Path f)) \<noteq> Inl OSError"
    by simp
  then obtain pkgs where
    "packages_of w files = Inr pkgs" "sorted pkgs" "distinct pkgs"
    "set pkgs = {d. 1 < length d \<and>
                    (\<exists>f\<in>set files. manifest_dir w (Path f # parents (Path f)) = Inr (Some d))}"
    by (rule packages_of_answered)
  with False show ?thesis
    by auto
qed

lemma manifest_dir_example:
  "manifest_dir (blank_world\<lparr>fs := (\<lambda>_. None)(''a/pkg1/package.json'' \<mapsto> File [] 0)\<rparr>)
     (Path ''a/pkg1/src/x.ts'' # parents (Path ''a/pkg1/src/x.ts'')) = Inr (Some ''a/pkg1'')"
  "manifest_dir (blank_world\<lparr>fs := (\<lambda>_. None)(''a/pkg1/package.json'' \<mapsto> File [] 0)\<rparr>)
     (Path ''a/pkg1/src/y.ts'' # parents (Path ''a/pkg1/src/y.ts'')) = Inr (Some ''a/pkg1'')"
  "manifest_dir (blank_world\<lparr>fs := (\<lambda>_. None)(''a/pkg1/package.json'' \<mapsto> Refused)\<rparr>)
     (Path ''a/pkg1/src/x.ts'' # parents (Path ''a/pkg1/src/x.ts'')) = Inl OSError"
  by code_simp+

text \<open>
  The example of the specification: two changed files under \<open>a/pkg1/src\<close>, the manifest in
  \<open>a/pkg1\<close>. And the same tree with a system that refuses the lookup of the manifest.
\<close>

theorem changed_packages_sorted_manifest_dirs_witness:
  "(\<exists>pkgs. packages_of (blank_world\<lparr>fs := (\<lambda>_. None)(''a/pkg1/package.json'' \<mapsto> File [] 0)\<rparr>)
             [''a/pkg1/src/x.ts'', ''a/pkg1/src/y.ts''] = Inr pkgs
           \<and> ''a/pkg1'' \<in> set pkgs \<and> sorted pkgs \<and> distinct pkgs \<and> ''.'' \<notin> set pkgs)
   \<and> packages_of (blank_world\<lparr>fs := (\<lambda>_. None)(''a/pkg1/package.json'' \<mapsto> Refused)\<rparr>)
       [''a/pkg1/src/x.ts''] = Inl OSError"
  using changed_packages_sorted_manifest_dirs
          [where w = "blank_world\<lparr>fs := (\<lambda>_. None)(''a/pkg1/package.json'' \<mapsto> File [] 0)\<rparr>"
             and files = "[''a/pkg1/src/x.ts'', ''a/pkg1/src/y.ts'']"]
        changed_packages_sorted_manifest_dirs
          [where w = "blank_world\<lparr>fs := (\<lambda>_. None)(''a/pkg1/package.json'' \<mapsto> Refused)\<rparr>"
             and files = "[''a/pkg1/src/x.ts'']"]
        manifest_dir_example
  by auto

lemma changed_packages_example:
  "packages_of (blank_world\<lparr>fs := (\<lambda>_. None)(''a/pkg1/package.json'' \<mapsto> File [] 0)\<rparr>)
     [''a/pkg1/src/x.ts'', ''a/pkg1/src/y.ts''] = Inr [''a/pkg1'']"
  by code_simp

lemma get_changed_packages_example:
  "fst (get_changed_packages
          (fixture (\<lambda>_. Inl []) (\<lambda>_ _. None)
             (\<lambda>argv w. (Completed 0 ('' M a/pkg1/src/x.ts'' @ NL @ '' M a/pkg1/src/y.ts'' @ NL), fs w)))
          (blank_world\<lparr>fs := (\<lambda>_. None)(''a/pkg1/package.json'' \<mapsto> File [] 0)\<rparr>))
     = Inr [''a/pkg1'']"
  "fst (get_changed_packages
          (fixture (\<lambda>_. Inl []) (\<lambda>_ _. None)
             (\<lambda>argv w. (Completed 0 ('' M a/pkg1/src/x.ts'' @ NL), fs w)))
          (blank_world\<lparr>fs := (\<lambda>_. None)(''a/pkg1/package.json'' \<mapsto> Refused)\<rparr>))
     = Inl OSError"
  by code_simp+

text \<open>
  C4 as stated fails twice. With a manifest in the directory \<open>a\<close>, the changed file
  \<open>a/x.ts\<close> gives no package: the filter \<open>len(pkg) > 1\<close> drops \<open>a\<close>, which is not the root.
  And the status line of an untracked directory, \<open>pkg/\<close>, with a manifest inside gives
  \<open>pkg\<close>: the walk starts at the path itself, not at its parent. Nor is a list returned for
  every tree: with the manifest of \<open>a/pkg1\<close> refused by the system, the changed file
  \<open>a/pkg1/src/x.ts\<close> gives \<open>OSError\<close>.
\<close>

theorem changed_packages_counterexample:
  "packages_of (blank_world\<lparr>fs := (\<lambda>_. None)(''a/package.json'' \<mapsto> File [] 0)\<rparr>) [''a/x.ts''] = Inr []
   \<and> claimed_packages (blank_world\<lparr>fs := (\<lambda>_. None)(''a/package.json'' \<mapsto> File [] 0)\<rparr>) [''a/x.ts''] = [''a'']
   \<and> packages_of (blank_world\<lparr>fs := (\<lambda>_. None)(''pkg/package.json'' \<mapsto> File [] 0)\<rparr>) [''pkg/''] = Inr [''pkg'']
   \<and> claimed_packages (blank_world\<lparr>fs := (\<lambda>_. None)(''pkg/package.json'' \<mapsto> File [] 0)\<rparr>) [''pkg/''] = []
   \<and> packages_of (blank_world\<lparr>fs := (\<lambda>_. None)(''a/pkg1/package.json'' \<mapsto> Refused)\<rparr>)
       [''a/pkg1/src/x.ts''] = Inl OSError"
  by code_simp

section \<open>The changeset file\<close>

lemma join_lines: "join NL (xs @ [y, []]) = concat (map (\<lambda>x. x @ NL) xs) @ y @ NL"
  by (induction xs rule: join.induct [of _ NL]) simp_all

lemma changeset_text_lines:
  "changeset_text E prefix changed_packages change_type description_md =
     ''---'' @ NL @
     concat (map (\<lambda>pkg_path. DQ @ fmt E prefix @ ''/'' @ name (Path pkg_path) @ DQ @ '': '' @
                               change_type @ NL) changed_packages) @
     ''---'' @ NL @
     (if description_md \<noteq> [] then strip description_md @ NL else [])"
proof -
  let ?f = "\<lambda>pkg_path. DQ @ fmt E prefix @ ''/'' @ name (Path pkg_path) @ DQ @ '': '' @ change_type"
  have "join NL ((''---'' # map ?f changed_packages) @ [''---'', []])
          = concat (map (\<lambda>x. x @ NL) (''---'' # map ?f changed_packages)) @ ''---'' @ NL"
    by (rule join_lines)
  then show ?thesis
    by (simp add: changeset_text_def Let_def comp_def)
qed

lemma changeset_overwritten:
  assumes "create_and_edit_changeset E pm description_md change_type dir prefix w = (Inr (Some latest), w')"
  shows "\<exists>changed_packages t.
           fs w' (as_posix latest)
             = Some (File (changeset_text E prefix changed_packages change_type description_md) t)"
  using assms
  by (auto simp: create_and_edit_changeset_def Let_def write_text_def emit_def
           split: prod.splits sum.splits option.splits if_splits)

text \<open>
  C5 at a run with the description \<open>Fix login\<close>, the change type \<open>patch\<close> and one changed
  package, \<open>packages/web\<close>. The file that the tool created is overwritten, but the text that
  the function writes has no blank line after the closing delimiter: \<open>join\<close> puts a newline
  between the lines and none after the last, empty one, so the description follows the
  delimiter line directly. The text of C5 has the blank line.
\<close>

theorem changeset_without_blank_line:
  "fs (snd (create_and_edit_changeset
              (fixture (\<lambda>_. Inl []) (\<lambda>_ _. None) (tools ('' M packages/web/src/a.ts'' @ NL) []))
              (JStr ''pnpm'') ''Fix login'' ''patch'' (Path ''/repo'') (JStr ''@acme'') repo_world))
      ''/repo/.changeset/calm-dogs-run.md''
     = Some (File (''---'' @ NL @
                   DQ @ ''@acme/web'' @ DQ @ '': patch'' @ NL @
                   ''---'' @ NL @
                   ''Fix login'' @ NL) 0)
   \<and> claimed_changeset_text ''@acme'' [''packages/web''] ''patch'' ''Fix login''
     = ''---'' @ NL @
       DQ @ ''@acme/web'' @ DQ @ '': patch'' @ NL @
       ''---'' @ NL @
       NL @
       ''Fix login'' @ NL"
  by code_simp

section \<open>A failed build ends the run\<close>

lemma handle_create_pr_stages:
  "handle_create_pr E a w =
     (case stages_before_pr E w of
        None \<Rightarrow> None
      | Some (Inl x) \<Rightarrow> Some x
      | Some (Inr x) \<Rightarrow> Some (submit_pr E a (cwd w) x))"
proof -
  define K :: "(((py_error + int) \<times> world) + (BlackyConfig \<times> string \<times> string \<times> string \<times> world)) option
                 \<Rightarrow> ((py_error + int) \<times> world) option"
    where "K = (\<lambda>r. case r of None \<Rightarrow> None | Some (Inl x) \<Rightarrow> Some x
                      | Some (Inr x) \<Rightarrow> Some (submit_pr E a (cwd w) x))"
  define G :: "(((py_error + int) \<times> world) + (BlackyConfig \<times> string \<times> string \<times> string \<times> world)) option
                 \<Rightarrow> (((py_error + int) \<times> world) + (BlackyConfig \<times> string \<times> string \<times> string \<times> world)) option"
    where "G = (\<lambda>r. case r of
        None \<Rightarrow> None
      | Some (Inl x) \<Rightarrow> Some (Inl x)
      | Some (Inr (config, current_branch, title, description, w6)) \<Rightarrow>
          (case run_local_build E (package_manager config) (Path (cwd w)) w6 of
             (Inl e, w7) \<Rightarrow> Some (Inl (Inl e, w7))
           | (Inr ok, w7) \<Rightarrow>
               if ok then Some (Inr (config, current_branch, title, description, w7))
               else Some (Inl (Inr 1, w7))))"
  define H where "H = (\<lambda>r. K (G r))"
  have leaf_None: "H None = None"
    by (simp add: H_def K_def G_def)
  have leaf_Inl: "H (Some (Inl x)) = Some x" for x
    by (simp add: H_def K_def G_def)
  have leaf_Inr: "H (Some (Inr (config, current_branch, title, description, w6))) =
      (case run_local_build E (package_manager config) (Path (cwd w)) w6 of
        (Inl e, w7) \<Rightarrow> Some (Inl e, w7)
      | (Inr False, w7) \<Rightarrow> Some (Inr 1, w7)
      | (Inr True, w7) \<Rightarrow>
     (case create_azure_pr E
             (organization_url (azure config)) (project (azure config)) (repository (azure config))
             current_branch (target_branch config) title
             (if description \<noteq> [] then description
              else ''Automatically created by blacky for branch '' @ current_branch)
             (az_args a) (Path (cwd w)) (dry_run a) w7 of
        (Inl e, w8) \<Rightarrow> Some (Inl e, w8)
      | (Inr success, w8) \<Rightarrow> Some (Inr (if success then 0 else 1), w8)))"
    for config current_branch title description w6
    by (simp add: H_def K_def G_def submit_pr_def split: prod.splits sum.splits bool.splits)
  have "(case stages_before_pr E w of
        None \<Rightarrow> None
      | Some (Inl x) \<Rightarrow> Some x
      | Some (Inr x) \<Rightarrow> Some (submit_pr E a (cwd w) x)) = H (stages_before_build E w)"
    by (simp add: H_def K_def G_def stages_before_pr_def)
  also have "\<dots> = handle_create_pr E a w"
    unfolding stages_before_build_def handle_create_pr_def Let_def
    by (simp only: prod.case_distrib [of H] sum.case_distrib [of H] option.case_distrib [of H]
          if_distrib [of H] leaf_None leaf_Inl leaf_Inr)
  finally show ?thesis by simp
qed

lemma no_pr_between_iff:
  "no_pr_between w w' \<longleftrightarrow>
     (\<exists>tr ev. trace w' = trace w @ tr \<and> out w' = out w @ ev \<and>
              (\<forall>x\<in>set tr. \<not> is_pr_create (fst x)) \<and> Print ''Command would be:'' \<notin> set ev)"
proof
  assume h: "no_pr_between w w'"
  have "trace w' = trace w @ drop (length (trace w)) (trace w')"
    using h append_take_drop_id [of "length (trace w)" "trace w'"]
    by (simp add: no_pr_between_def)
  moreover have "out w' = out w @ drop (length (out w)) (out w')"
    using h append_take_drop_id [of "length (out w)" "out w'"]
    by (simp add: no_pr_between_def)
  ultimately show "\<exists>tr ev. trace w' = trace w @ tr \<and> out w' = out w @ ev \<and>
              (\<forall>x\<in>set tr. \<not> is_pr_create (fst x)) \<and> Print ''Command would be:'' \<notin> set ev"
    using h by (auto simp: no_pr_between_def list_ex_iff)
next
  assume "\<exists>tr ev. trace w' = trace w @ tr \<and> out w' = out w @ ev \<and>
              (\<forall>x\<in>set tr. \<not> is_pr_create (fst x)) \<and> Print ''Command would be:'' \<notin> set ev"
  then show "no_pr_between w w'"
    by (auto simp: no_pr_between_def list_ex_iff)
qed

lemma no_pr_refl: "no_pr_between w w"
  by (simp add: no_pr_between_iff)

lemma no_pr_trans: "no_pr_between w w1 \<Longrightarrow> no_pr_between w1 w2 \<Longrightarrow> no_pr_between w w2"
  unfolding no_pr_between_iff by (elim exE conjE) (simp, blast)

lemma no_pr_emit:
  "no_pr_between w w0 \<Longrightarrow> e \<noteq> Print ''Command would be:'' \<Longrightarrow> no_pr_between w (emit e w0)"
  unfolding no_pr_between_iff emit_def by (elim exE conjE) simp

lemma no_pr_section: "no_pr_between w w0 \<Longrightarrow> no_pr_between w (print_section t w0)"
  unfolding print_section_def Let_def by (rule no_pr_emit) simp_all

lemma no_pr_reads: "no_pr_between w w0 \<Longrightarrow> no_pr_between w (w0\<lparr>reads := n\<rparr>)"
  by (simp add: no_pr_between_def)

lemma no_pr_write_text: "no_pr_between w w0 \<Longrightarrow> no_pr_between w (write_text E p t w0)"
  by (simp add: no_pr_between_def write_text_def)

lemma no_pr_run_process:
  "run_process E argv dir w0 = (p, w1) \<Longrightarrow> \<not> is_pr_create argv \<Longrightarrow> no_pr_between w w0 \<Longrightarrow>
     no_pr_between w w1"
  unfolding no_pr_between_iff run_process_def
  by (elim exE conjE) (auto split: prod.splits)

lemma no_pr_foldl_emit:
  "no_pr_between w w0 \<Longrightarrow> no_pr_between w (foldl (\<lambda>w' key. emit (PrintErr (f key)) w') w0 ks)"
  by (induction ks arbitrary: w0) (simp_all add: no_pr_emit)

lemma if_pair_cases: "(if c then x else y) = z \<Longrightarrow> x = z \<or> y = z"
  by (simp split: if_splits)

lemma attempt_world:
  assumes "attempt r w0 k = (res, w1)"
  obtains x where "k x = (res, w1)" | "w1 = w0"
  using assms by (cases r) (simp_all add: attempt_def)

lemma check_config_world:
  assumes "check_config raw w0 = (r, w1)"
  shows "w1 = w0 \<or>
         (\<exists>ks. w1 = emit (PrintErr example_configuration)
                 (foldl (\<lambda>w' key. emit (PrintErr (''  - '' @ key)) w')
                    (emit (Error ''Your blacky.conf.json is missing some required fields:'') w0) ks))"
  using assms unfolding check_config_def Let_def
  by - (elim attempt_world; (drule if_pair_cases)?; blast)

lemma no_pr_check_config:
  assumes "check_config raw w0 = (r, w1)" and "no_pr_between w w0"
  shows "no_pr_between w w1"
  using check_config_world [OF assms(1)] assms(2)
  by (auto intro!: no_pr_emit no_pr_foldl_emit)

lemma no_pr_load_config_file:
  "load_config_file E p w0 = (r, w1) \<Longrightarrow> no_pr_between w w0 \<Longrightarrow> no_pr_between w w1"
  unfolding load_config_file_def
  by (auto split: option.splits node.splits sum.splits intro!: no_pr_emit
           intro: no_pr_check_config)

lemma not_pr_git [simp]:
  "\<not> is_pr_create [''git'', ''rev-parse'', ''--abbrev-ref'', ''HEAD'']"
  "\<not> is_pr_create [''git'', ''status'', ''--porcelain'']"
  "\<not> is_pr_create [x]" "\<not> is_pr_create [x, y]" "\<not> is_pr_create [x, y, z]"
  by (simp_all add: is_pr_create_def)

lemma no_pr_get_current_branch:
  "get_current_branch E w0 = (r, w1) \<Longrightarrow> no_pr_between w w0 \<Longrightarrow> no_pr_between w w1"
  unfolding get_current_branch_def Let_def
  by (auto split: prod.splits proc.splits if_splits
           intro!: no_pr_emit intro: no_pr_run_process [rotated 2])

lemma no_pr_build_pr_title:
  "build_pr_title_from_branch E b pat w0 = (r, w1) \<Longrightarrow> no_pr_between w w0 \<Longrightarrow> no_pr_between w w1"
  unfolding build_pr_title_from_branch_def
  by (auto split: option.splits if_splits intro!: no_pr_emit)

lemma no_pr_input_line:
  "input_line q w0 = (r, w1) \<Longrightarrow> no_pr_between w w0 \<Longrightarrow> no_pr_between w w1"
  unfolding input_line_def Let_def
  by (auto split: option.splits intro!: no_pr_reads no_pr_emit)

lemma no_pr_read_description:
  assumes "read_description acc w0 = Some y"
  shows "no_pr_between w0 (snd y)"
  using assms
proof (induction acc w0 y rule: read_description.raw_induct [rotated, consumes 1])
  case (1 rd acc w0 y)
  obtain r w1 where i: "input_line ''> '' w0 = (r, w1)"
    by fastforce
  have q: "no_pr_between w0 w1"
    using no_pr_input_line [OF i no_pr_refl] .
  show ?case
  proof (cases r)
    case (Inl e)
    with 1(2) i q show ?thesis by auto
  next
    case (Inr l)
    show ?thesis
    proof (cases "strip l = ''.''")
      case True
      with 1(2) i q Inr show ?thesis by auto
    next
      case False
      with 1(2) i Inr have "rd (acc @ [l]) w1 = Some y" by simp
      from 1(1) [OF this] q show ?thesis by (rule no_pr_trans [rotated])
    qed
  qed
qed

lemma no_pr_ask_multiline_markdown:
  assumes "ask_multiline_markdown prompt w0 = Some (d, w1)" and "no_pr_between w w0"
  shows "no_pr_between w w1"
proof -
  let ?w3 = "emit (Print ''Finish input with a single line '.' or EOF (Ctrl+D):'')
               (emit (Info prompt) (print_section ''PR Description'' w0))"
  from assms(1) obtain ls where "read_description [] ?w3 = Some (ls, w1)"
    by (auto simp: ask_multiline_markdown_def Let_def split: option.splits)
  from no_pr_read_description [OF this] have "no_pr_between ?w3 w1" by simp
  moreover have "no_pr_between w ?w3"
    using assms(2) by (intro no_pr_emit no_pr_section) simp_all
  ultimately show ?thesis by (rule no_pr_trans [rotated])
qed

lemma no_pr_read_change_type:
  assumes "read_change_type w0 = Some y"
  shows "no_pr_between w0 (snd y)"
  using assms
proof (induction w0 y rule: read_change_type.raw_induct [rotated, consumes 1])
  case (1 rct w0 y)
  obtain r w1 where i: "input_line ''Change type for this changeset? [patch/minor/major]: '' w0 = (r, w1)"
    by fastforce
  have q: "no_pr_between w0 w1"
    using no_pr_input_line [OF i no_pr_refl] .
  show ?case
  proof (cases r)
    case (Inl e)
    with 1(2) i q show ?thesis by auto
  next
    case (Inr l)
    show ?thesis
    proof (cases "lower (strip l) \<in> valid")
      case True
      with 1(2) i q Inr show ?thesis by (auto simp: Let_def)
    next
      case False
      let ?w2 = "emit (Print ''Please enter 'patch', 'minor' or 'major'.'') w1"
      from False 1(2) i Inr have "rct ?w2 = Some y" by (simp add: Let_def)
      from 1(1) [OF this] have "no_pr_between ?w2 (snd y)" .
      moreover have "no_pr_between w0 ?w2"
        using q by (rule no_pr_emit) simp
      ultimately show ?thesis by (rule no_pr_trans [rotated])
    qed
  qed
qed

lemma no_pr_ask_change_type:
  assumes "ask_change_type w0 = Some (r, w1)" and "no_pr_between w w0"
  shows "no_pr_between w w1"
proof -
  from assms(1) have "read_change_type (print_section ''Change Type'' w0) = Some (r, w1)"
    by (simp add: ask_change_type_def)
  from no_pr_read_change_type [OF this]
  have "no_pr_between (print_section ''Change Type'' w0) w1" by simp
  moreover have "no_pr_between w (print_section ''Change Type'' w0)"
    using assms(2) by (rule no_pr_section)
  ultimately show ?thesis by (rule no_pr_trans [rotated])
qed

lemma run_command_cases:
  assumes "run_command E cmd dir w0 = (r, w1)"
  shows "(those (map str_of cmd) = None \<and> r = Inl TypeError \<and> w1 = w0) \<or>
         (\<exists>argv p files.
            those (map str_of cmd) = Some argv \<and>
            w1 = w0\<lparr>out := out w0 @ [Info (''Running command:'' @ NL @ ''  '' @ join '' '' argv)],
                     fs := files, trace := trace w0 @ [(argv, p)]\<rparr> \<and>
            r = (case p of
                   NotStarted \<Rightarrow> Inl FileNotFoundError
                 | Completed rc so \<Rightarrow> if rc \<noteq> 0 then Inl CalledProcessError else Inr ()))"
  using assms
  by (auto simp: run_command_def run_process_def emit_def
           split: option.splits prod.splits proc.splits if_splits)

lemma those_str_of_Cons:
  "those (map str_of (x # xs)) = Some argv \<Longrightarrow>
     \<exists>s ss. x = JStr s \<and> argv = s # ss \<and> those (map str_of xs) = Some ss"
  by (cases x) (auto split: option.splits)

lemma no_pr_run_command:
  assumes "run_command E cmd dir w0 = (r, w1)"
    and "\<And>argv. those (map str_of cmd) = Some argv \<Longrightarrow> \<not> is_pr_create argv"
    and "no_pr_between w w0"
  shows "no_pr_between w w1"
proof -
  from run_command_cases [OF assms(1)] show ?thesis
  proof (elim disjE exE conjE)
    assume "w1 = w0"
    with assms(3) show ?thesis by simp
  next
    fix argv p files
    assume a: "those (map str_of cmd) = Some argv"
      and w1: "w1 = w0\<lparr>out := out w0 @ [Info (''Running command:'' @ NL @ ''  '' @ join '' '' argv)],
                     fs := files, trace := trace w0 @ [(argv, p)]\<rparr>"
    from assms(3) obtain tr ev where
      "trace w0 = trace w @ tr" "out w0 = out w @ ev"
      "\<forall>x\<in>set tr. \<not> is_pr_create (fst x)" "Print ''Command would be:'' \<notin> set ev"
      unfolding no_pr_between_iff by blast
    with assms(2) [OF a] show ?thesis
      unfolding no_pr_between_iff w1 by simp
  qed
qed

lemma no_pr_get_changed_packages:
  "get_changed_packages E w0 = (r, w1) \<Longrightarrow> no_pr_between w w0 \<Longrightarrow> no_pr_between w w1"
  unfolding get_changed_packages_def Let_def
  by (auto split: prod.splits proc.splits if_splits
           intro!: no_pr_emit intro: no_pr_run_process [rotated 2])

lemma not_pr_three:
  "those (map str_of [a, b, c]) = Some argv \<Longrightarrow> \<not> is_pr_create argv"
  "those (map str_of [a, b]) = Some argv \<Longrightarrow> \<not> is_pr_create argv"
  by (auto simp: is_pr_create_def split: option.splits)

lemma no_pr_create_and_edit_changeset:
  assumes "create_and_edit_changeset E pm d ct dir prefix w0 = (r, w1)" and "no_pr_between w w0"
  shows "no_pr_between w w1"
proof -
  obtain r1 w1' where rc: "run_command E [pm, JStr ''changeset'', JStr ''--empty''] dir
                             (print_section ''Changeset'' w0) = (r1, w1')"
    by fastforce
  have q1: "no_pr_between w w1'"
    using rc not_pr_three(1) no_pr_section [OF assms(2)] by (rule no_pr_run_command)
  show ?thesis
  proof (cases r1)
    case (Inl e)
    with assms(1) rc q1 show ?thesis
      by (auto simp: create_and_edit_changeset_def split: if_splits intro!: no_pr_emit)
  next
    case (Inr u)
    show ?thesis
    proof (cases "find_latest_changeset_file w1' (joinpath dir ''.changeset'')")
      case refused: (Inl e)
      with assms(1) rc q1 Inr show ?thesis
        by (auto simp: create_and_edit_changeset_def)
    next
      case found: (Inr l)
      show ?thesis
      proof (cases l)
        case None
        with assms(1) rc q1 Inr found show ?thesis
          by (auto simp: create_and_edit_changeset_def intro!: no_pr_emit)
      next
        case (Some latest)
        obtain r2 w2 where g: "get_changed_packages E
                         (emit (Info (''Editing changeset file: '' @ as_posix latest)) w1') = (r2, w2)"
          by fastforce
        have q2: "no_pr_between w w2"
          using g by (rule no_pr_get_changed_packages) (rule no_pr_emit [OF q1], simp)
        from assms(1) rc Inr found Some g q2 show ?thesis
          by (auto simp: create_and_edit_changeset_def Let_def split: sum.splits
                   intro!: no_pr_emit no_pr_write_text)
      qed
    qed
  qed
qed

lemma no_pr_stages_before_build:
  assumes "stages_before_build E w = Some (Inr (config, branch, title, description, w6))"
  shows "no_pr_between w w6"
proof -
  let ?dir = "Path (cwd w)"
  obtain r1 w1 where s1: "load_config_file E (joinpath ?dir DEFAULT_CONFIG_FILE)
                            (print_section ''Configuration'' w) = (r1, w1)"
    by fastforce
  have q1: "no_pr_between w w1"
    using s1 by (rule no_pr_load_config_file) (rule no_pr_section [OF no_pr_refl])
  from assms s1 obtain cfg where r1: "r1 = Inr (Some cfg)"
    by (auto simp: stages_before_build_def Let_def split: sum.splits option.splits)
  obtain r2 w2 where s2: "get_current_branch E (print_section ''Git'' w1) = (r2, w2)"
    by fastforce
  have q2: "no_pr_between w w2"
    using s2 by (rule no_pr_get_current_branch) (rule no_pr_section [OF q1])
  from assms s1 r1 s2 obtain b where r2: "r2 = Inr (Some b)" "b \<noteq> []"
    by (auto simp: stages_before_build_def Let_def split: sum.splits option.splits if_splits)
  obtain r3 w3 where s3: "build_pr_title_from_branch E b (pr_title_regex cfg) w2 = (r3, w3)"
    by fastforce
  have q3: "no_pr_between w w3"
    using s3 q2 by (rule no_pr_build_pr_title)
  from assms s1 r1 s2 r2 s3 obtain t where r3: "r3 = Inr t"
    by (auto simp: stages_before_build_def Let_def split: sum.splits)
  let ?w3 = "emit (Info (''Suggested PR title: '' @ t)) w3"
  from assms s1 r1 s2 r2 s3 r3 obtain d w4 where
    s4: "ask_multiline_markdown ''Please provide a PR description in Markdown.'' ?w3 = Some (d, w4)"
    by (auto simp: stages_before_build_def Let_def split: option.splits)
  have q4: "no_pr_between w w4"
    using s4 by (rule no_pr_ask_multiline_markdown) (rule no_pr_emit [OF q3], simp)
  let ?w4 = "if d = [] then
               emit (Warn ''You did not provide a description. The PR will be a bit terse.'') w4
             else w4"
  have q4': "no_pr_between w ?w4"
    using q4 by (auto intro!: no_pr_emit)
  from assms s1 r1 s2 r2 s3 r3 s4 obtain ct w5 where
    s5: "ask_change_type ?w4 = Some (Inr ct, w5)"
    by (auto simp: stages_before_build_def Let_def split: option.splits sum.splits)
  have q5: "no_pr_between w w5"
    using s5 q4' by (rule no_pr_ask_change_type)
  obtain r6 w6' where s6: "create_and_edit_changeset E (package_manager cfg) d ct ?dir
                             (project_pkg_prefix cfg) w5 = (r6, w6')"
    by fastforce
  have q6: "no_pr_between w w6'"
    using s6 q5 by (rule no_pr_create_and_edit_changeset)
  from assms s1 r1 s2 r2 s3 r3 s4 s5 s6 have "w6 = w6'"
    by (auto simp: stages_before_build_def Let_def split: option.splits sum.splits)
  with q6 show ?thesis by simp
qed

lemma those_two:
  "those (map str_of [a, JStr x]) = Some argv \<Longrightarrow> \<exists>pm. a = JStr pm \<and> argv = [pm, x]"
  by (cases a) auto

lemma those_three:
  "those (map str_of [a, JStr x, JStr y]) = Some argv \<Longrightarrow> \<exists>pm. a = JStr pm \<and> argv = [pm, x, y]"
  by (cases a) auto

lemma run_local_build_trace:
  assumes "run_local_build E pm dir w6 = (r7, w7)"
  shows "\<exists>tr. trace w7 = trace w6 @ tr \<and>
              (\<forall>x\<in>set tr. build_step (fst x)) \<and>
              (r7 = Inr False \<or> (\<forall>x\<in>set tr. \<forall>rc so. snd x = Completed rc so \<longrightarrow> rc = 0))"
proof -
  let ?w = "print_section ''Local Build'' w6"
  have t0: "trace ?w = trace w6"
    by (simp add: print_section_def emit_def Let_def)
  obtain r1 w1 where c1: "run_command E [pm, JStr ''install''] dir ?w = (r1, w1)"
    by fastforce
  from run_command_cases [OF c1] show ?thesis
  proof (elim disjE exE conjE)
    assume "r1 = Inl TypeError" "w1 = ?w"
    with assms c1 t0 show ?thesis
      by (simp add: run_local_build_def)
  next
    fix argv p files
    assume a: "those (map str_of [pm, JStr ''install'']) = Some argv"
      and w1: "w1 = ?w\<lparr>out := out ?w @ [Info (''Running command:'' @ NL @ ''  '' @ join '' '' argv)],
                        fs := files, trace := trace ?w @ [(argv, p)]\<rparr>"
      and r1: "r1 = (case p of NotStarted \<Rightarrow> Inl FileNotFoundError
                     | Completed rc so \<Rightarrow> if rc \<noteq> 0 then Inl CalledProcessError else Inr ())"
    from those_two [OF a] obtain s where s: "pm = JStr s" "argv = [s, ''install'']"
      by blast
    have t1: "trace w1 = trace w6 @ [(argv, p)]"
      by (simp add: w1 t0)
    show ?thesis
    proof (cases r1)
      case (Inl e)
      with assms c1 have "(r7 = Inr False \<or> (e \<noteq> CalledProcessError \<and> r7 = Inl e)) \<and> trace w7 = trace w1"
        by (auto simp: run_local_build_def emit_def split: if_splits)
      moreover have "e \<noteq> CalledProcessError \<Longrightarrow> \<forall>rc so. p = Completed rc so \<longrightarrow> rc = 0"
        using Inl r1 by (auto split: proc.splits if_splits)
      ultimately show ?thesis
        using t1 s by auto
    next
      case (Inr u)
      then have p0: "\<forall>rc so. p = Completed rc so \<longrightarrow> rc = 0"
        using r1 by (auto split: proc.splits if_splits)
      obtain r2 w2 where c2: "run_command E [pm, JStr ''run'', JStr ''build:all''] dir w1 = (r2, w2)"
        by fastforce
      from run_command_cases [OF c2] obtain argv2 p2 where
        a2: "those (map str_of [pm, JStr ''run'', JStr ''build:all'']) = Some argv2"
        and t2: "trace w2 = trace w1 @ [(argv2, p2)]"
        and r2: "r2 = (case p2 of NotStarted \<Rightarrow> Inl FileNotFoundError
                     | Completed rc so \<Rightarrow> if rc \<noteq> 0 then Inl CalledProcessError else Inr ())"
        using s by auto
      from those_three [OF a2] s have argv2: "argv2 = [s, ''run'', ''build:all'']"
        by auto
      from assms c1 Inr c2 have
        "trace w7 = trace w2 \<and>
         (r7 = Inr False \<or> (r2 \<noteq> Inl CalledProcessError))"
        by (auto simp: run_local_build_def emit_def split: if_splits sum.splits)
      moreover have "r2 \<noteq> Inl CalledProcessError \<Longrightarrow> \<forall>rc so. p2 = Completed rc so \<longrightarrow> rc = 0"
        using r2 by (auto split: proc.splits if_splits)
      ultimately show ?thesis
        using t1 t2 s argv2 p0 by auto
    qed
  qed
qed

lemma no_pr_run_local_build:
  assumes "run_local_build E pm dir w6 = (r7, w7)" and "no_pr_between w w6"
  shows "no_pr_between w w7"
proof -
  obtain r1 w1 where c1: "run_command E [pm, JStr ''install''] dir (print_section ''Local Build'' w6) = (r1, w1)"
    by fastforce
  have q1: "no_pr_between w w1"
    using c1 not_pr_three(2) no_pr_section [OF assms(2)] by (rule no_pr_run_command)
  show ?thesis
  proof (cases r1)
    case (Inl e)
    with assms(1) c1 q1 show ?thesis
      by (auto simp: run_local_build_def split: if_splits intro!: no_pr_emit)
  next
    case (Inr u)
    obtain r2 w2 where c2: "run_command E [pm, JStr ''run'', JStr ''build:all''] dir w1 = (r2, w2)"
      by fastforce
    have q2: "no_pr_between w w2"
      using c2 not_pr_three(1) q1 by (rule no_pr_run_command)
    from assms(1) c1 Inr c2 q2 show ?thesis
      by (auto simp: run_local_build_def split: if_splits sum.splits intro!: no_pr_emit)
  qed
qed

text \<open>
  C7: when the run has reached the local build and a command of the build ends with a return
  code other than 0, that command is the install or the build step, the run ends there with
  exit status 1, in the state that the build left, and from the start of the run to its end
  the pull request was neither submitted nor shown as a dry run.
\<close>

theorem build_failure_stops_before_pr:
  assumes "stages_before_build E w = Some (Inr (config, branch, title, description, w6))"
    and "run_local_build E (package_manager config) (Path (cwd w)) w6 = (r7, w7)"
    and "(argv, Completed rc so) \<in> set (drop (length (trace w6)) (trace w7))"
    and "rc \<noteq> 0"
  shows "build_step argv \<and> handle_create_pr E a w = Some (Inr 1, w7) \<and> no_pr_between w w7"
proof -
  from run_local_build_trace [OF assms(2)] obtain tr where
    tr: "trace w7 = trace w6 @ tr" "\<forall>x\<in>set tr. build_step (fst x)"
        "r7 = Inr False \<or> (\<forall>x\<in>set tr. \<forall>rc so. snd x = Completed rc so \<longrightarrow> rc = 0)"
    by blast
  from assms(3) tr(1) have m: "(argv, Completed rc so) \<in> set tr" by simp
  from m tr(2) have "build_step argv" by force
  moreover from m tr(3) assms(4) have r7: "r7 = Inr False" by force
  have "handle_create_pr E a w = Some (Inr 1, w7)"
    using assms(1,2) r7
    by (simp add: handle_create_pr_stages stages_before_pr_def)
  moreover have "no_pr_between w w7"
    using assms(2) no_pr_stages_before_build [OF assms(1)] by (rule no_pr_run_local_build)
  ultimately show ?thesis by simp
qed

lemmas run_defs =
  stages_before_build_def load_config_file_def check_config_def attempt_def py_get_def
  repo_env_def fixture_def tools_def repo_world_def blank_world_def repo_config_def
  feature_search_def get_current_branch_def run_process_def build_pr_title_from_branch_def
  group_title_def ask_multiline_markdown_def read_description.simps ask_change_type_def
  read_change_type.simps input_line_def lines_then_eof_def strip_def py_isspace_def
  lower_def lower_char_def valid_def create_and_edit_changeset_def run_command_def
  find_latest_changeset_file_def is_md_def is_file_def st_mtime_def joinpath_def Path_def
  as_posix_def get_changed_packages_def splitlines_def is_linebreak_def packages_of_def
  exists_def parents_def changeset_text_def write_text_def fmt_def name_def emit_def
  print_section_def DEFAULT_CONFIG_FILE_def Let_def

lemma sorted_list_of_one:
  "sorted_list_of_set {a. a = x \<and> P a} = (if P x then [x] else [])"
proof -
  have "{a. a = x \<and> P a} = (if P x then {x} else {})"
    by auto
  then show ?thesis
    by simp
qed

lemma repo_run_reaches_build:
  "\<exists>cfg w6. stages_before_build (repo_env failing)
               (repo_world\<lparr>stdin := lines_then_eof [''Fix login'', ''.'', ''patch'']\<rparr>)
             = Some (Inr (cfg, ''feature/add-login'', ''add-login'', ''Fix login'', w6)) \<and>
           package_manager cfg = JStr ''pnpm'' \<and> target_branch cfg = JStr ''main'' \<and>
           organization_url (azure cfg) = JStr ''https://dev.azure.com/acme'' \<and>
           project (azure cfg) = JStr ''shop'' \<and> repository (azure cfg) = JStr ''web'' \<and>
           fs w6 ''/repo/.changeset/calm-dogs-run.md''
             = Some (File (''---'' @ NL @ DQ @ ''@acme/web'' @ DQ @ '': patch'' @ NL @
                           ''---'' @ NL @ ''Fix login'' @ NL) 0)"
  if "failing = [''pnpm'', ''install''] \<or> failing = [''pnpm'', ''run'', ''build:all''] \<or> failing = []"
proof -
  have "(case stages_before_build (repo_env failing)
           (repo_world\<lparr>stdin := lines_then_eof [''Fix login'', ''.'', ''patch'']\<rparr>) of
      Some (Inr (cfg, b, t, d, w6)) \<Rightarrow>
        package_manager cfg = JStr ''pnpm'' \<and> b = ''feature/add-login'' \<and> t = ''add-login'' \<and>
        d = ''Fix login'' \<and> target_branch cfg = JStr ''main'' \<and>
        organization_url (azure cfg) = JStr ''https://dev.azure.com/acme'' \<and>
        project (azure cfg) = JStr ''shop'' \<and> repository (azure cfg) = JStr ''web'' \<and>
        fs w6 ''/repo/.changeset/calm-dogs-run.md''
          = Some (File (''---'' @ NL @ DQ @ ''@acme/web'' @ DQ @ '': patch'' @ NL @
                        ''---'' @ NL @ ''Fix login'' @ NL) 0)
    | _ \<Rightarrow> False)"
    using that by (elim disjE) (simp_all add: run_defs sorted_list_of_one split_on.simps)
  then show ?thesis
    by (auto split: option.splits sum.splits)
qed

lemma install_fails:
  "run_local_build (repo_env [''pnpm'', ''install'']) (JStr ''pnpm'') dir w6 = (r7, w7) \<Longrightarrow>
     ([''pnpm'', ''install''], Completed 1 []) \<in> set (drop (length (trace w6)) (trace w7))"
  by (auto simp: run_local_build_def run_command_def run_process_def repo_env_def fixture_def
        tools_def emit_def print_section_def Let_def)

text \<open>
  A dry run in which \<open>pnpm install\<close> ends with code 1: exit status 1, and no trace of the
  pull request.
\<close>

theorem build_failure_stops_before_pr_witness:
  "map_option fst
     (handle_create_pr (repo_env [''pnpm'', ''install'']) \<lparr>dry_run = True, az_args = []\<rparr>
        (repo_world\<lparr>stdin := lines_then_eof [''Fix login'', ''.'', ''patch'']\<rparr>))
     = Some (Inr 1)
   \<and> no_pr_between (repo_world\<lparr>stdin := lines_then_eof [''Fix login'', ''.'', ''patch'']\<rparr>)
       (snd (the (handle_create_pr (repo_env [''pnpm'', ''install''])
                    \<lparr>dry_run = True, az_args = []\<rparr>
                    (repo_world\<lparr>stdin := lines_then_eof [''Fix login'', ''.'', ''patch'']\<rparr>))))"
proof -
  let ?E = "repo_env [''pnpm'', ''install'']"
  let ?w = "repo_world\<lparr>stdin := lines_then_eof [''Fix login'', ''.'', ''patch'']\<rparr>"
  obtain cfg w6 where
    s: "stages_before_build ?E ?w
          = Some (Inr (cfg, ''feature/add-login'', ''add-login'', ''Fix login'', w6))"
    and pm: "package_manager cfg = JStr ''pnpm''"
    using repo_run_reaches_build [of "[''pnpm'', ''install'']"] by auto
  obtain r7 w7 where b: "run_local_build ?E (package_manager cfg) (Path (cwd ?w)) w6 = (r7, w7)"
    by fastforce
  have m: "([''pnpm'', ''install''], Completed 1 []) \<in> set (drop (length (trace w6)) (trace w7))"
    using b unfolding pm by (rule install_fails)
  have "(1::int) \<noteq> 0" by simp
  from build_failure_stops_before_pr [OF s b m this, of "\<lparr>dry_run = True, az_args = []\<rparr>"]
  show ?thesis by simp
qed

section \<open>The dry-run flag and the earlier stages\<close>

lemma trace_extends: "no_pr_between w w' \<Longrightarrow> \<exists>tr. trace w' = trace w @ tr"
  unfolding no_pr_between_iff by blast

lemma changeset_ran:
  assumes "create_and_edit_changeset E pmj d ct dir prefix w5 = (Inr (Some latest), w6)"
  shows "\<exists>pm so tr. pmj = JStr pm \<and>
           trace w6 = trace w5 @ ([pm, ''changeset'', ''--empty''], Completed 0 so) # tr"
proof -
  let ?w = "print_section ''Changeset'' w5"
  have t0: "trace ?w = trace w5"
    by (simp add: print_section_def emit_def Let_def)
  obtain r1 w1 where rc: "run_command E [pmj, JStr ''changeset'', JStr ''--empty''] dir ?w = (r1, w1)"
    by fastforce
  from assms rc obtain u where r1: "r1 = Inr u"
    by (cases r1) (auto simp: create_and_edit_changeset_def split: if_splits)
  from run_command_cases [OF rc] r1 obtain argv p where
    a: "those (map str_of [pmj, JStr ''changeset'', JStr ''--empty'']) = Some argv"
    and t1: "trace w1 = trace ?w @ [(argv, p)]"
    and p: "Inr u = (case p of NotStarted \<Rightarrow> Inl FileNotFoundError
                     | Completed rc so \<Rightarrow> if rc \<noteq> 0 then Inl CalledProcessError else Inr ())"
    by auto
  from those_three [OF a] obtain pm where pm: "pmj = JStr pm" "argv = [pm, ''changeset'', ''--empty'']"
    by blast
  from p obtain so where so: "p = Completed 0 so"
    by (cases p) (auto split: if_splits)
  from assms rc r1 obtain l where
    l: "find_latest_changeset_file w1 (joinpath dir ''.changeset'') = Inr (Some l)"
    by (auto simp: create_and_edit_changeset_def split: sum.splits option.splits)
  obtain r2 w2 where g: "get_changed_packages E
                           (emit (Info (''Editing changeset file: '' @ as_posix l)) w1) = (r2, w2)"
    by fastforce
  have "no_pr_between w1 w2"
    using g by (rule no_pr_get_changed_packages) (rule no_pr_emit [OF no_pr_refl], simp)
  from trace_extends [OF this] obtain tr where t2: "trace w2 = trace w1 @ tr"
    by blast
  from assms rc r1 l g have "trace w6 = trace w2"
    by (auto simp: create_and_edit_changeset_def Let_def write_text_def emit_def
             split: sum.splits if_splits)
  with t2 t1 t0 pm so show ?thesis by simp
qed

lemma build_ran:
  assumes "run_local_build E pmj dir w6 = (Inr True, w7)"
  shows "\<exists>pm s2 s3. pmj = JStr pm \<and>
           trace w7 = trace w6 @ [([pm, ''install''], Completed 0 s2),
                                  ([pm, ''run'', ''build:all''], Completed 0 s3)]"
proof -
  let ?w = "print_section ''Local Build'' w6"
  have t0: "trace ?w = trace w6"
    by (simp add: print_section_def emit_def Let_def)
  obtain r1 w1 where c1: "run_command E [pmj, JStr ''install''] dir ?w = (r1, w1)"
    by fastforce
  from assms c1 obtain u where r1: "r1 = Inr u"
    by (cases r1) (auto simp: run_local_build_def split: if_splits)
  from run_command_cases [OF c1] r1 obtain argv p where
    a: "those (map str_of [pmj, JStr ''install'']) = Some argv"
    and t1: "trace w1 = trace ?w @ [(argv, p)]"
    and p: "Inr u = (case p of NotStarted \<Rightarrow> Inl FileNotFoundError
                     | Completed rc so \<Rightarrow> if rc \<noteq> 0 then Inl CalledProcessError else Inr ())"
    by auto
  from those_two [OF a] obtain pm where pm: "pmj = JStr pm" "argv = [pm, ''install'']"
    by blast
  from p obtain s2 where s2: "p = Completed 0 s2"
    by (cases p) (auto split: if_splits)
  obtain r2 w2 where c2: "run_command E [pmj, JStr ''run'', JStr ''build:all''] dir w1 = (r2, w2)"
    by fastforce
  from assms c1 r1 c2 obtain u2 where r2: "r2 = Inr u2" and w7: "trace w7 = trace w2"
    by (cases r2) (auto simp: run_local_build_def emit_def split: if_splits)
  from run_command_cases [OF c2] r2 obtain argv2 p2 where
    a2: "those (map str_of [pmj, JStr ''run'', JStr ''build:all'']) = Some argv2"
    and t2: "trace w2 = trace w1 @ [(argv2, p2)]"
    and p2: "Inr u2 = (case p2 of NotStarted \<Rightarrow> Inl FileNotFoundError
                     | Completed rc so \<Rightarrow> if rc \<noteq> 0 then Inl CalledProcessError else Inr ())"
    by auto
  from those_three [OF a2] pm have argv2: "argv2 = [pm, ''run'', ''build:all'']"
    by auto
  from p2 obtain s3 where s3: "p2 = Completed 0 s3"
    by (cases p2) (auto split: if_splits)
  from w7 t2 t1 t0 pm argv2 s2 s3 show ?thesis by simp
qed

lemma read_change_type_valid:
  assumes "read_change_type w = Some y"
  shows "\<forall>ct. fst y = Inr ct \<longrightarrow> ct \<in> valid"
  using assms
proof (induction w y rule: read_change_type.raw_induct [rotated, consumes 1])
  case (1 rct w y)
  obtain r w1 where i: "input_line ''Change type for this changeset? [patch/minor/major]: '' w = (r, w1)"
    by fastforce
  show ?case
  proof (cases r)
    case (Inl e)
    with 1(2) i show ?thesis by auto
  next
    case (Inr l)
    show ?thesis
    proof (cases "lower (strip l) \<in> valid")
      case True
      with 1(2) i Inr show ?thesis by (auto simp: Let_def)
    next
      case False
      with 1(2) i Inr
      have "rct (emit (Print ''Please enter 'patch', 'minor' or 'major'.'') w1) = Some y"
        by (simp add: Let_def)
      from 1(1) [OF this] show ?thesis .
    qed
  qed
qed

lemma ask_change_type_valid: "ask_change_type w = Some (Inr ct, w') \<Longrightarrow> ct \<in> valid"
  using read_change_type_valid [of "print_section ''Change Type'' w" "(Inr ct, w')"]
  by (simp add: ask_change_type_def)

lemma find_latest_md:
  assumes "find_latest_changeset_file w dir = Inr (Some c)"
  shows "\<exists>n. c = joinpath dir n \<and> is_md n \<and> is_file w c = Inr True"
proof -
  let ?entries = "case fs w (as_posix dir) of Some (Dir ns) \<Rightarrow> ns | _ \<Rightarrow> []"
  let ?matches = "map (joinpath dir) (filter is_md ?entries)"
  let ?candidates = "rev (sort_key (st_mtime w) (rev (filter (\<lambda>p. is_file w p = Inr True) ?matches)))"
  from assms have "\<exists>cs. ?candidates = c # cs"
    by (auto simp: find_latest_changeset_file_def Let_def
             split: sum.splits bool.splits if_splits list.splits)
  then have "c \<in> set ?candidates"
    by force
  then show ?thesis
    by auto
qed

lemma get_changed_packages_sorted:
  assumes "get_changed_packages E w = (Inr pkgs, w')"
  shows "sorted pkgs \<and> distinct pkgs"
  using assms
  by (auto simp: get_changed_packages_def packages_of_def Let_def
           split: prod.splits proc.splits if_splits sum.splits)

lemma changeset_written:
  assumes "create_and_edit_changeset E pm description_md change_type dir prefix w = (Inr (Some latest), w')"
  shows "\<exists>n pkgs t.
           latest = joinpath (joinpath dir ''.changeset'') n \<and> is_md n \<and>
           sorted pkgs \<and> distinct pkgs \<and>
           fs w' (as_posix latest)
             = Some (File (changeset_text E prefix pkgs change_type description_md) t)"
proof -
  obtain r1 w1 where rc: "run_command E [pm, JStr ''changeset'', JStr ''--empty''] dir
                            (print_section ''Changeset'' w) = (r1, w1)"
    by fastforce
  from assms rc obtain u where r1: "r1 = Inr u"
    by (cases r1) (auto simp: create_and_edit_changeset_def split: if_splits)
  from assms rc r1 have
    l: "find_latest_changeset_file w1 (joinpath dir ''.changeset'') = Inr (Some latest)"
    by (auto simp: create_and_edit_changeset_def Let_def
             split: sum.splits option.splits prod.splits)
  from find_latest_md [OF l] obtain n where
    n: "latest = joinpath (joinpath dir ''.changeset'') n" "is_md n"
    by blast
  obtain r2 w2 where g: "get_changed_packages E
                           (emit (Info (''Editing changeset file: '' @ as_posix latest)) w1) = (r2, w2)"
    by fastforce
  from assms rc r1 l g obtain pkgs where r2: "r2 = Inr pkgs"
    by (cases r2) (auto simp: create_and_edit_changeset_def)
  from get_changed_packages_sorted [OF g [unfolded r2]] have p: "sorted pkgs" "distinct pkgs"
    by simp_all
  from assms rc r1 l g r2 have
    "\<exists>t. fs w' (as_posix latest)
           = Some (File (changeset_text E prefix pkgs change_type description_md) t)"
    by (auto simp: create_and_edit_changeset_def Let_def write_text_def emit_def)
  with n p show ?thesis
    by blast
qed

lemma stages_before_build_changeset:
  assumes "stages_before_build E w = Some (Inr (config, branch, title, description, w6))"
  obtains ct w5 latest where
    "ct \<in> valid" "no_pr_between w w5"
    "create_and_edit_changeset E (package_manager config) description ct (Path (cwd w))
       (project_pkg_prefix config) w5 = (Inr (Some latest), w6)"
proof -
  let ?dir = "Path (cwd w)"
  obtain r1 w1 where s1: "load_config_file E (joinpath ?dir DEFAULT_CONFIG_FILE)
                            (print_section ''Configuration'' w) = (r1, w1)"
    by fastforce
  from assms s1 obtain cfg where r1: "r1 = Inr (Some cfg)"
    by (auto simp: stages_before_build_def Let_def split: sum.splits option.splits)
  obtain r2 w2 where s2: "get_current_branch E (print_section ''Git'' w1) = (r2, w2)"
    by fastforce
  from assms s1 r1 s2 obtain b where r2: "r2 = Inr (Some b)" "b \<noteq> []"
    by (auto simp: stages_before_build_def Let_def split: sum.splits option.splits if_splits)
  obtain r3 w3 where s3: "build_pr_title_from_branch E b (pr_title_regex cfg) w2 = (r3, w3)"
    by fastforce
  from assms s1 r1 s2 r2 s3 obtain t where r3: "r3 = Inr t"
    by (auto simp: stages_before_build_def Let_def split: sum.splits)
  let ?w3 = "emit (Info (''Suggested PR title: '' @ t)) w3"
  from assms s1 r1 s2 r2 s3 r3 obtain d w4 where
    s4: "ask_multiline_markdown ''Please provide a PR description in Markdown.'' ?w3 = Some (d, w4)"
    by (auto simp: stages_before_build_def Let_def split: option.splits)
  let ?w4 = "if d = [] then
               emit (Warn ''You did not provide a description. The PR will be a bit terse.'') w4
             else w4"
  from assms s1 r1 s2 r2 s3 r3 s4 obtain ct w5 where
    s5: "ask_change_type ?w4 = Some (Inr ct, w5)"
    by (auto simp: stages_before_build_def Let_def split: option.splits sum.splits)
  have q5: "no_pr_between w w5"
  proof -
    have "no_pr_between w w1"
      using s1 by (rule no_pr_load_config_file) (rule no_pr_section [OF no_pr_refl])
    then have "no_pr_between w w2"
      using s2 by (intro no_pr_get_current_branch [OF s2] no_pr_section)
    then have "no_pr_between w w3"
      using s3 by (intro no_pr_build_pr_title [OF s3])
    then have "no_pr_between w ?w3"
      by (rule no_pr_emit) simp
    then have "no_pr_between w w4"
      by (rule no_pr_ask_multiline_markdown [OF s4])
    then have "no_pr_between w ?w4"
      by (auto intro!: no_pr_emit)
    then show ?thesis
      by (rule no_pr_ask_change_type [OF s5])
  qed
  obtain r6 w6' where s6: "create_and_edit_changeset E (package_manager cfg) d ct ?dir
                             (project_pkg_prefix cfg) w5 = (r6, w6')"
    by fastforce
  from assms s1 r1 s2 r2 s3 r3 s4 s5 s6 obtain l where
    e: "w6 = w6'" "config = cfg" "r6 = Inr (Some l)"
    by (auto simp: stages_before_build_def Let_def split: option.splits sum.splits)
  from assms s1 r1 s2 r2 s3 r3 s4 s5 s6 have "description = d"
    by (auto simp: stages_before_build_def Let_def split: option.splits sum.splits)
  with s6 e ask_change_type_valid [OF s5] q5 show ?thesis
    by (intro that [of ct w5 l]) simp_all
qed

lemma stages_before_build_ran:
  assumes "stages_before_build E w = Some (Inr (config, branch, title, description, w6))"
  shows "\<exists>pm so pre post. package_manager config = JStr pm \<and>
           trace w6 = trace w @ pre @ ([pm, ''changeset'', ''--empty''], Completed 0 so) # post"
proof -
  from assms obtain ct w5 latest where
    q5: "no_pr_between w w5"
    and s6: "create_and_edit_changeset E (package_manager config) description ct (Path (cwd w))
               (project_pkg_prefix config) w5 = (Inr (Some latest), w6)"
    by (rule stages_before_build_changeset)
  from changeset_ran [OF s6] obtain pm so post where
    c: "package_manager config = JStr pm"
       "trace w6 = trace w5 @ ([pm, ''changeset'', ''--empty''], Completed 0 so) # post"
    by blast
  from trace_extends [OF q5] obtain pre where "trace w5 = trace w @ pre"
    by blast
  with c show ?thesis by auto
qed

lemma stages_before_build_written:
  assumes "stages_before_build E w = Some (Inr (config, branch, title, description, w6))"
  shows "\<exists>n pkgs ct t.
           is_md n \<and> ct \<in> valid \<and> sorted pkgs \<and> distinct pkgs \<and>
           fs w6 (as_posix (joinpath (joinpath (Path (cwd w)) ''.changeset'') n))
             = Some (File (changeset_text E (project_pkg_prefix config) pkgs ct description) t)"
proof -
  from assms obtain ct w5 latest where
    v: "ct \<in> valid"
    and s6: "create_and_edit_changeset E (package_manager config) description ct (Path (cwd w))
               (project_pkg_prefix config) w5 = (Inr (Some latest), w6)"
    by (rule stages_before_build_changeset)
  from changeset_written [OF s6] v show ?thesis
    by blast
qed

text \<open>
  C10: for every value of the dry-run flag the run is the stages before the PR submission,
  which take no command-line argument and so are the same run with and without the flag,
  followed by the call of \<open>create_azure_pr\<close>, which alone receives the flag. When these stages
  reach the submission, dry run or not, the changeset was written and the build has run:
  the stages up to the changeset ended in a state in which a file \<open>*.md\<close> of the directory
  \<open>.changeset\<close> holds the text that the program composes from the configured prefix, a
  sorted list of packages without duplicates, one of the three change types and the
  description of this run; from that state the local build succeeded; and the commands
  \<open>changeset --empty\<close>, \<open>install\<close> and \<open>run build:all\<close> of the configured package manager have
  run in this run, each with return code 0.
\<close>

theorem dry_run_reaches_only_submission:
  "(\<forall>d. handle_create_pr E (a\<lparr>dry_run := d\<rparr>) w =
         (case stages_before_pr E w of
            None \<Rightarrow> None
          | Some (Inl x) \<Rightarrow> Some x
          | Some (Inr x) \<Rightarrow> Some (submit_pr E (a\<lparr>dry_run := d\<rparr>) (cwd w) x)))
   \<and> (\<forall>config branch title description w7.
         stages_before_pr E w = Some (Inr (config, branch, title, description, w7)) \<longrightarrow>
         (\<exists>w6 n pkgs ct t pm s1 s2 s3.
            stages_before_build E w = Some (Inr (config, branch, title, description, w6)) \<and>
            run_local_build E (package_manager config) (Path (cwd w)) w6 = (Inr True, w7) \<and>
            is_md n \<and> ct \<in> valid \<and> sorted pkgs \<and> distinct pkgs \<and>
            fs w6 (as_posix (joinpath (joinpath (Path (cwd w)) ''.changeset'') n))
              = Some (File (changeset_text E (project_pkg_prefix config) pkgs ct description) t) \<and>
            package_manager config = JStr pm \<and>
            ([pm, ''changeset'', ''--empty''], Completed 0 s1)
               \<in> set (drop (length (trace w)) (trace w7)) \<and>
            ([pm, ''install''], Completed 0 s2) \<in> set (drop (length (trace w)) (trace w7)) \<and>
            ([pm, ''run'', ''build:all''], Completed 0 s3)
               \<in> set (drop (length (trace w)) (trace w7))))"
proof (intro conjI allI impI)
  fix d
  show "handle_create_pr E (a\<lparr>dry_run := d\<rparr>) w =
         (case stages_before_pr E w of
            None \<Rightarrow> None
          | Some (Inl x) \<Rightarrow> Some x
          | Some (Inr x) \<Rightarrow> Some (submit_pr E (a\<lparr>dry_run := d\<rparr>) (cwd w) x))"
    by (rule handle_create_pr_stages)
next
  fix config branch title description w7
  assume h: "stages_before_pr E w = Some (Inr (config, branch, title, description, w7))"
  then obtain w6 where
    s: "stages_before_build E w = Some (Inr (config, branch, title, description, w6))"
    and b: "run_local_build E (package_manager config) (Path (cwd w)) w6 = (Inr True, w7)"
    by (auto simp: stages_before_pr_def split: option.splits sum.splits prod.splits if_splits)
  from stages_before_build_written [OF s] obtain n pkgs ct t where
    f: "is_md n" "ct \<in> valid" "sorted pkgs" "distinct pkgs"
       "fs w6 (as_posix (joinpath (joinpath (Path (cwd w)) ''.changeset'') n))
          = Some (File (changeset_text E (project_pkg_prefix config) pkgs ct description) t)"
    by blast
  from stages_before_build_ran [OF s] obtain pm so pre post where
    c: "package_manager config = JStr pm"
       "trace w6 = trace w @ pre @ ([pm, ''changeset'', ''--empty''], Completed 0 so) # post"
    by blast
  from build_ran [OF b] c(1) obtain s2 s3 where
    t: "trace w7 = trace w6 @ [([pm, ''install''], Completed 0 s2),
                              ([pm, ''run'', ''build:all''], Completed 0 s3)]"
    by auto
  have r: "([pm, ''changeset'', ''--empty''], Completed 0 so)
             \<in> set (drop (length (trace w)) (trace w7))"
          "([pm, ''install''], Completed 0 s2) \<in> set (drop (length (trace w)) (trace w7))"
          "([pm, ''run'', ''build:all''], Completed 0 s3)
             \<in> set (drop (length (trace w)) (trace w7))"
    using c t by simp_all
  show "\<exists>w6 n pkgs ct t pm s1 s2 s3.
            stages_before_build E w = Some (Inr (config, branch, title, description, w6)) \<and>
            run_local_build E (package_manager config) (Path (cwd w)) w6 = (Inr True, w7) \<and>
            is_md n \<and> ct \<in> valid \<and> sorted pkgs \<and> distinct pkgs \<and>
            fs w6 (as_posix (joinpath (joinpath (Path (cwd w)) ''.changeset'') n))
              = Some (File (changeset_text E (project_pkg_prefix config) pkgs ct description) t) \<and>
            package_manager config = JStr pm \<and>
            ([pm, ''changeset'', ''--empty''], Completed 0 s1)
               \<in> set (drop (length (trace w)) (trace w7)) \<and>
            ([pm, ''install''], Completed 0 s2) \<in> set (drop (length (trace w)) (trace w7)) \<and>
            ([pm, ''run'', ''build:all''], Completed 0 s3)
               \<in> set (drop (length (trace w)) (trace w7))"
    using s b f c(1) r by blast
qed

lemma build_succeeds:
  "\<exists>w7. run_local_build (repo_env []) (JStr ''pnpm'') dir w6 = (Inr True, w7) \<and> fs w7 = fs w6"
  by (simp add: run_local_build_def run_command_def run_process_def repo_env_def fixture_def
        tools_def emit_def print_section_def Let_def)

lemma dry_run_succeeds:
  "fst (submit_pr (repo_env []) \<lparr>dry_run = True, az_args = xs\<rparr> dir (cfg, b, t, d, w7)) = Inr 0"
  if "organization_url (azure cfg) = JStr u" "project (azure cfg) = JStr p"
     "repository (azure cfg) = JStr r" "target_branch cfg = JStr g"
  unfolding submit_pr_def prod.case that create_azure_pr_def Let_def az_cmd_JStr shown_JStr
    those_map_Some
  by simp

lemma dry_run_keeps_trace:
  "trace (snd (submit_pr (repo_env []) \<lparr>dry_run = True, az_args = xs\<rparr> dir (cfg, b, t, d, w7)))
     = trace w7"
  if "organization_url (azure cfg) = JStr u" "project (azure cfg) = JStr p"
     "repository (azure cfg) = JStr r" "target_branch cfg = JStr g"
  unfolding submit_pr_def prod.case that create_azure_pr_def Let_def az_cmd_JStr shown_JStr
    those_map_Some
  by (simp add: emit_def section_azure)

lemma dry_run_keeps_fs:
  "fs (snd (submit_pr (repo_env []) \<lparr>dry_run = True, az_args = xs\<rparr> dir (cfg, b, t, d, w7)))
     = fs w7"
  if "organization_url (azure cfg) = JStr u" "project (azure cfg) = JStr p"
     "repository (azure cfg) = JStr r" "target_branch cfg = JStr g"
  unfolding submit_pr_def prod.case that create_azure_pr_def Let_def az_cmd_JStr shown_JStr
    those_map_Some
  by (simp add: emit_def section_azure)

text \<open>
  A dry run that succeeds: exit status 0, the trace of the run holds the changeset command,
  the install and the build, and the file that the changeset command created holds the
  text that the program wrote over it.
\<close>

theorem dry_run_reaches_only_submission_witness:
  "map_option fst
     (handle_create_pr (repo_env []) \<lparr>dry_run = True, az_args = [''--draft'']\<rparr>
        (repo_world\<lparr>stdin := lines_then_eof [''Fix login'', ''.'', ''patch'']\<rparr>))
     = Some (Inr 0)
   \<and> (\<exists>s1 s2 s3.
        ([''pnpm'', ''changeset'', ''--empty''], Completed 0 s1)
          \<in> set (trace (snd (the (handle_create_pr (repo_env [])
                    \<lparr>dry_run = True, az_args = [''--draft'']\<rparr>
                    (repo_world\<lparr>stdin := lines_then_eof [''Fix login'', ''.'', ''patch'']\<rparr>))))) \<and>
        ([''pnpm'', ''install''], Completed 0 s2)
          \<in> set (trace (snd (the (handle_create_pr (repo_env [])
                    \<lparr>dry_run = True, az_args = [''--draft'']\<rparr>
                    (repo_world\<lparr>stdin := lines_then_eof [''Fix login'', ''.'', ''patch'']\<rparr>))))) \<and>
        ([''pnpm'', ''run'', ''build:all''], Completed 0 s3)
          \<in> set (trace (snd (the (handle_create_pr (repo_env [])
                    \<lparr>dry_run = True, az_args = [''--draft'']\<rparr>
                    (repo_world\<lparr>stdin := lines_then_eof [''Fix login'', ''.'', ''patch'']\<rparr>))))))
   \<and> fs (snd (the (handle_create_pr (repo_env []) \<lparr>dry_run = True, az_args = [''--draft'']\<rparr>
                    (repo_world\<lparr>stdin := lines_then_eof [''Fix login'', ''.'', ''patch'']\<rparr>))))
        ''/repo/.changeset/calm-dogs-run.md''
     = Some (File (''---'' @ NL @ DQ @ ''@acme/web'' @ DQ @ '': patch'' @ NL @
                   ''---'' @ NL @ ''Fix login'' @ NL) 0)"
proof -
  let ?E = "repo_env []"
  let ?a = "\<lparr>dry_run = True, az_args = [''--draft'']\<rparr>"
  let ?w = "repo_world\<lparr>stdin := lines_then_eof [''Fix login'', ''.'', ''patch'']\<rparr>"
  have w: "cwd ?w = ''/repo''" "trace ?w = []"
    by (simp_all add: repo_world_def blank_world_def)
  obtain cfg w6 where
    s: "stages_before_build ?E ?w
          = Some (Inr (cfg, ''feature/add-login'', ''add-login'', ''Fix login'', w6))"
    and c: "package_manager cfg = JStr ''pnpm''" "target_branch cfg = JStr ''main''"
       "organization_url (azure cfg) = JStr ''https://dev.azure.com/acme''"
       "project (azure cfg) = JStr ''shop''" "repository (azure cfg) = JStr ''web''"
    and f: "fs w6 ''/repo/.changeset/calm-dogs-run.md''
              = Some (File (''---'' @ NL @ DQ @ ''@acme/web'' @ DQ @ '': patch'' @ NL @
                            ''---'' @ NL @ ''Fix login'' @ NL) 0)"
    using repo_run_reaches_build [of "[]"] by auto
  obtain w7 where b: "run_local_build ?E (package_manager cfg) (Path (cwd ?w)) w6 = (Inr True, w7)"
    and k: "fs w7 = fs w6"
    unfolding c using build_succeeds by blast
  have p: "stages_before_pr ?E ?w
             = Some (Inr (cfg, ''feature/add-login'', ''add-login'', ''Fix login'', w7))"
    using s b by (simp add: stages_before_pr_def)
  note t = dry_run_reaches_only_submission [where E = ?E and a = ?a and w = ?w]
  from t [THEN conjunct1, rule_format, of True] p
  have h: "handle_create_pr ?E ?a ?w
             = Some (submit_pr ?E ?a (cwd ?w) (cfg, ''feature/add-login'', ''add-login'', ''Fix login'', w7))"
    by simp
  from t [THEN conjunct2, rule_format, OF p] c(1)
  obtain s1 s2 s3 where
    "([''pnpm'', ''changeset'', ''--empty''], Completed 0 s1) \<in> set (trace w7)"
    "([''pnpm'', ''install''], Completed 0 s2) \<in> set (trace w7)"
    "([''pnpm'', ''run'', ''build:all''], Completed 0 s3) \<in> set (trace w7)"
    by (auto simp: w)
  then show ?thesis
    unfolding h option.sel option.map
      dry_run_keeps_trace [OF c(3,4,5,2)] dry_run_succeeds [OF c(3,4,5,2)]
      dry_run_keeps_fs [OF c(3,4,5,2)] k
    using f by blast
qed

end
